theory Spec2Isabelle
  imports Complex_Main "HOL-Library.Char_ord" "HOL-Library.List_Lexorder"
begin

section \<open>The exoplanet model trainer: \<open>apps/ml_pipeline/model_trainer.py\<close>\<close>

text \<open>
  The module has one function, \<open>train_all\<close>, which prepares a data frame, splits it,
  fits four scikit-learn pipelines, pickles each of them and records the name of the most
  accurate one. The embedding follows the function line by line. Calls into pandas,
  scikit-learn, xgboost, pickle and the file system are calls of a library record (a
  parameter of the model), every exception is a value of \<open>error\<close>, and the files of
  the models directory are a map from file names to contents.

  Python strings are \<open>string\<close> with the code point order (the lexicographic order of
  \<open>HOL-Library.List_Lexorder\<close> over \<open>HOL-Library.Char_ord\<close>), which is the order
  Python sorts \<open>str\<close> by. A float cell of a numeric column is a \<open>rat option\<close>:
  \<open>None\<close> is NaN, the missing value of pandas.
\<close>

subsection \<open>Values, errors and the data frame\<close>

datatype error =
  ValueError string
  | KeyError string
  | IndexError
  | LibraryError string

type_synonym cell = "rat option"

text \<open>A label as scikit-learn sees it: a \<open>str\<close> of the label column or an integer code.\<close>

datatype pyval = PyStr string | PyInt int

text \<open>
  The frame \<open>df\<close> that \<open>load_and_prepare\<close> returns (lines 24-25; the loader is
  another module). The three feature columns and the label column are there; the
  \<open>stellar_temp\<close> column may be absent, which is what line 28 tests.
\<close>

record frame =
  orbital_period :: "cell list"
  transit_duration :: "cell list"
  planet_radius :: "cell list"
  stellar_temp :: "cell list option"
  label :: "string list"

definition FEATURES :: "string list" where
  "FEATURES = [''orbital_period'', ''transit_duration'', ''planet_radius'', ''stellar_temp'']"

definition nrows :: "frame \<Rightarrow> nat" where
  "nrows df = length (label df)"

subsection \<open>Lines 27-31: filling \<open>stellar_temp\<close>\<close>

text \<open>
  \<open>Series.median()\<close> skips missing values; the median of no value at all is NaN.
  \<open>Series.fillna(v)\<close> replaces the missing cells by \<open>v\<close> and keeps the others.
  \<open>df['stellar_temp'] = 0\<close> broadcasts the scalar over the rows of the frame.
\<close>

definition dropna :: "cell list \<Rightarrow> rat list" where
  "dropna xs = concat (map (\<lambda>c. case c of None \<Rightarrow> [] | Some v \<Rightarrow> [v]) xs)"

definition median :: "cell list \<Rightarrow> cell" where
  "median xs =
     (let s = sort (dropna xs); n = length s in
      if n = 0 then None
      else if odd n then Some (s ! (n div 2))
      else Some ((s ! (n div 2 - 1) + s ! (n div 2)) / 2))"

definition fillna :: "cell list \<Rightarrow> cell \<Rightarrow> cell list" where
  "fillna xs v = map (\<lambda>c. case c of None \<Rightarrow> v | Some a \<Rightarrow> Some a) xs"

definition fill_stellar_temp :: "frame \<Rightarrow> frame" where
  "fill_stellar_temp df =
     (case stellar_temp df of
        Some col \<Rightarrow> df\<lparr>stellar_temp := Some (fillna col (median col))\<rparr>
      | None \<Rightarrow> df\<lparr>stellar_temp := Some (replicate (nrows df) (Some 0))\<rparr>)"

text \<open>Line 33, \<open>X = df[FEATURES]\<close>: the four columns, a \<open>KeyError\<close> if one is not there.\<close>

definition select_features :: "frame \<Rightarrow> error + cell list list" where
  "select_features df =
     (case stellar_temp df of
        None \<Rightarrow> Inl (KeyError ''stellar_temp'')
      | Some t \<Rightarrow> Inr [orbital_period df, transit_duration df, planet_radius df, t])"

subsection \<open>Lines 36-41: the label encoder\<close>

text \<open>
  \<open>LabelEncoder.fit\<close> stores the sorted distinct labels (its attribute of classes,
  \<open>classes\<close> here); a label's code
  is its position there. \<open>np.unique(y, return_inverse=True)\<close> computes the same pair.
  \<open>inverse_transform\<close> raises on a code outside \<open>0 .. len(classes) - 1\<close>.
\<close>

definition unique :: "'a::linorder list \<Rightarrow> 'a list" where
  "unique ys = sort (remdups ys)"

fun index_of :: "'a list \<Rightarrow> 'a \<Rightarrow> nat" where
  "index_of [] x = 0"
| "index_of (c # cs) x = (if c = x then 0 else Suc (index_of cs x))"

definition unique_inverse :: "'a::linorder list \<Rightarrow> nat list" where
  "unique_inverse ys = map (index_of (unique ys)) ys"

record LabelEncoder =
  classes :: "string list"

definition fit_transform :: "string list \<Rightarrow> LabelEncoder \<times> nat list" where
  "fit_transform y = (\<lparr>classes = unique y\<rparr>, unique_inverse y)"

definition transform :: "LabelEncoder \<Rightarrow> string list \<Rightarrow> error + nat list" where
  "transform enc y =
     (if list_all (\<lambda>v. v \<in> set (classes enc)) y
      then Inr (map (index_of (classes enc)) y)
      else Inl (ValueError ''y contains previously unseen labels''))"

fun decode :: "string list \<Rightarrow> pyval \<Rightarrow> string option" where
  "decode cs (PyInt c) = (if 0 \<le> c \<and> c < int (length cs) then Some (cs ! nat c) else None)"
| "decode cs (PyStr s) = None"

definition inverse_transform :: "LabelEncoder \<Rightarrow> pyval list \<Rightarrow> error + string list" where
  "inverse_transform enc y =
     (if list_all (\<lambda>v. decode (classes enc) v \<noteq> None) y
      then Inr (map (\<lambda>v. the (decode (classes enc) v)) y)
      else Inl (ValueError ''y contains previously unseen labels''))"

text \<open>Line 41, printed on line 42: each class with its code.\<close>

definition label_mapping :: "LabelEncoder \<Rightarrow> (string \<times> nat) list" where
  "label_mapping enc =
     (case transform enc (classes enc) of
        Inl e \<Rightarrow> []
      | Inr codes \<Rightarrow> zip (classes enc) codes)"

subsection \<open>Lines 44-46: the split strategy\<close>

text \<open>
  \<open>test_size\<close> is the float \<open>0.2\<close> (a fraction of the rows) or an integer (a number of
  rows); \<open>//\<close> on Python integers is floor division, \<open>div\<close> on \<open>int\<close>.
\<close>

datatype size_arg = Fraction rat | Count int

definition test_size :: "int \<Rightarrow> size_arg" where
  "test_size n = (if n \<ge> 50 then Fraction (2 / 10) else Count (max 2 (min (n div 3) (n - 1))))"

definition nunique :: "'a list \<Rightarrow> nat" where
  "nunique y = length (remdups y)"

definition value_counts :: "'a list \<Rightarrow> ('a \<times> nat) list" where
  "value_counts y = map (\<lambda>c. (c, count_list y c)) (remdups y)"

text \<open>
  \<open>and\<close> evaluates left to right and stops at the first false operand, so the minimum
  of the class counts is taken of a series that has at least two entries.
\<close>

definition stratify :: "'a list \<Rightarrow> 'a list option" where
  "stratify y =
     (if nunique y \<ge> 2
      then (if min_list (map snd (value_counts y)) \<ge> 2
            then (if length y \<ge> 10 then Some y else None)
            else None)
      else None)"

subsection \<open>The libraries and the models directory\<close>

text \<open>
  A classifier with the hyperparameters lines 71-112 give it, and a pipeline as the list
  of its named steps.
\<close>

datatype classifier =
  RandomForestClassifier nat nat nat
  | SVC string bool rat string nat nat
  | MLPClassifier "nat list" nat nat rat
  | XGBClassifier nat nat rat rat rat nat string

datatype step = StandardScaler | Clf classifier

type_synonym pipeline = "(string \<times> step) list"

text \<open>
  What line 138 pickles: the dictionary \<open>model_data\<close>. Its key \<open>label_encoder\<close> is
  there for one model only, so the field is an option.
\<close>

record 'm model_data =
  model :: 'm
  features :: "string list"
  label_encoder :: "LabelEncoder option"

text \<open>
  The calls the function makes into code that is not its own. \<open>'m\<close> is a fitted
  pipeline.
  \<^item> \<open>shuffle_split n tsize idx\<close> is the pair of row positions (train, test) that
    \<open>train_test_split(..., random_state=42)\<close> draws for \<open>n\<close> rows: scikit-learn
    validates the sizes, then shuffles with a generator seeded afresh by 42; when
    stratifying it first replaces the labels by their class indices,
    \<open>np.unique(stratify, return_inverse=True)\<close>, and reads nothing else of them.
  \<^item> \<open>fit\<close> and \<open>predict\<close> are \<open>Pipeline.fit\<close> and \<open>Pipeline.predict\<close>.
  \<^item> \<open>accuracy_score\<close> is \<open>sklearn.metrics.accuracy_score\<close>; its float result is a
    rational here.
  \<^item> \<open>open_file\<close> is \<open>open(path, mode)\<close> for writing, \<open>pickle_dump\<close> is
    \<open>pickle.dump\<close>; each gives the exception it raised, if any.
\<close>

record 'm library =
  shuffle_split :: "nat \<Rightarrow> size_arg \<Rightarrow> nat list option \<Rightarrow> error + nat list \<times> nat list"
  fit :: "pipeline \<Rightarrow> cell list list \<Rightarrow> pyval list \<Rightarrow> error + 'm"
  predict :: "'m \<Rightarrow> cell list list \<Rightarrow> error + pyval list"
  accuracy_score :: "pyval list \<Rightarrow> pyval list \<Rightarrow> error + rat"
  open_file :: "string \<Rightarrow> error option"
  pickle_dump :: "'m model_data \<Rightarrow> error option"

text \<open>
  The state the function changes: the files of \<open>MODELS_DIR\<close> by name (a file opened
  for writing whose dump failed is \<open>Partial\<close>), and the names of the pipelines whose
  \<open>fit\<close> has been called, in order.
\<close>

datatype 'm content = Pickle "'m model_data" | Partial | Text string

record 'm world =
  files :: "string \<rightharpoonup> 'm content"
  fitted :: "string list"

subsection \<open>Lines 51-62: validation and the two splits\<close>

text \<open>
  \<open>train_test_split(X, y, ...)\<close>: the arrays must have the same number of rows; the
  positions drawn index every array, and a position outside an array raises.
\<close>

definition train_test_split ::
  "'m library \<Rightarrow> cell list list \<Rightarrow> 'a::linorder list \<Rightarrow> size_arg \<Rightarrow> 'a list option
     \<Rightarrow> error + cell list list \<times> cell list list \<times> 'a list \<times> 'a list" where
  "train_test_split lib X y tsize strat =
     (if \<not> list_all (\<lambda>col. length col = length y) X
      then Inl (ValueError ''Found input variables with inconsistent numbers of samples'')
      else (case shuffle_split lib (length y) tsize (map_option unique_inverse strat) of
              Inl e \<Rightarrow> Inl e
            | Inr (train, test) \<Rightarrow>
                if list_all (\<lambda>i. i < length y) (train @ test)
                then Inr (map (\<lambda>col. map (nth col) train) X, map (\<lambda>col. map (nth col) test) X,
                          map (nth y) train, map (nth y) test)
                else Inl IndexError))"

record split =
  X_train :: "cell list list"
  X_test :: "cell list list"
  y_train :: "string list"
  y_test :: "string list"
  y_train_encoded :: "nat list"
  y_test_encoded :: "nat list"

definition split_data ::
  "'m library \<Rightarrow> cell list list \<Rightarrow> string list \<Rightarrow> nat list \<Rightarrow> error + split" where
  "split_data lib X y y_encoded =
     (let tsize = test_size (int (length y));
          strat = stratify y
      in if length y < 4
         then Inl (ValueError ''Dataset must contain at least 4 samples to train and test models.'')
         else if nunique y < 2
         then Inl (ValueError ''Dataset must contain at least two classes to train a classifier.'')
         else (case train_test_split lib X y tsize strat of
                 Inl e \<Rightarrow> Inl e
               | Inr (Xtr, Xte, ytr, yte) \<Rightarrow>
                   (case train_test_split lib X y_encoded tsize
                           (if strat \<noteq> None then Some y_encoded else None) of
                      Inl e \<Rightarrow> Inl e
                    | Inr (Xtr', Xte', ytr_enc, yte_enc) \<Rightarrow>
                        Inr \<lparr>X_train = Xtr, X_test = Xte, y_train = ytr, y_test = yte,
                             y_train_encoded = ytr_enc, y_test_encoded = yte_enc\<rparr>)))"

subsection \<open>Lines 64-138: the four pipelines and the training loop\<close>

definition N_ESTIMATORS :: nat where "N_ESTIMATORS = 300"

definition RANDOM_STATE :: nat where "RANDOM_STATE = 42"

definition MAX_ITER :: nat where "MAX_ITER = 300"

text \<open>The dictionary \<open>configs\<close>; a Python dictionary iterates in insertion order.\<close>

definition configs :: "(string \<times> pipeline) list" where
  "configs =
     [(''RandomForest'',
        [(''scaler'', StandardScaler),
         (''clf'', Clf (RandomForestClassifier N_ESTIMATORS RANDOM_STATE 6))]),
      (''SVM'',
        [(''scaler'', StandardScaler),
         (''clf'', Clf (SVC ''rbf'' True 3 ''scale'' RANDOM_STATE MAX_ITER))]),
      (''NeuralNet'',
        [(''scaler'', StandardScaler),
         (''clf'', Clf (MLPClassifier [64, 32] MAX_ITER RANDOM_STATE (1 / 10)))]),
      (''XGBoost'',
        [(''scaler'', StandardScaler),
         (''clf'', Clf (XGBClassifier N_ESTIMATORS 6 (1 / 10) (8 / 10) (8 / 10) RANDOM_STATE
                         ''mlogloss''))])]"

text \<open>
  \<open>results[name] = ...\<close> on a dictionary kept as the list of its items: a key that is
  there keeps its place, a new key goes last.
\<close>

fun dict_set :: "('k \<times> 'v) list \<Rightarrow> 'k \<Rightarrow> 'v \<Rightarrow> ('k \<times> 'v) list" where
  "dict_set [] k v = [(k, v)]"
| "dict_set ((k', v') # kvs) k v =
     (if k' = k then (k, v) # kvs else (k', v') # dict_set kvs k v)"

text \<open>Lines 118-127: fit, predict and score one pipeline.\<close>

definition fit_and_score ::
  "'m library \<Rightarrow> LabelEncoder \<Rightarrow> split \<Rightarrow> string \<Rightarrow> pipeline \<Rightarrow> error + 'm \<times> rat" where
  "fit_and_score lib enc d name pipe =
     (if name = ''XGBoost''
      then (case fit lib pipe (X_train d) (map (\<lambda>c. PyInt (int c)) (y_train_encoded d)) of
              Inl e \<Rightarrow> Inl e
            | Inr m \<Rightarrow>
                (case predict lib m (X_test d) of
                   Inl e \<Rightarrow> Inl e
                 | Inr y_pred \<Rightarrow>
                     (case inverse_transform enc y_pred of
                        Inl e \<Rightarrow> Inl e
                      | Inr y_pred_strings \<Rightarrow>
                          (case accuracy_score lib (map PyStr (y_test d))
                                  (map PyStr y_pred_strings) of
                             Inl e \<Rightarrow> Inl e
                           | Inr acc \<Rightarrow> Inr (m, acc)))))
      else (case fit lib pipe (X_train d) (map PyStr (y_train d)) of
              Inl e \<Rightarrow> Inl e
            | Inr m \<Rightarrow>
                (case predict lib m (X_test d) of
                   Inl e \<Rightarrow> Inl e
                 | Inr y_pred \<Rightarrow>
                     (case accuracy_score lib (map PyStr (y_test d)) y_pred of
                        Inl e \<Rightarrow> Inl e
                      | Inr acc \<Rightarrow> Inr (m, acc)))))"

text \<open>
  Lines 115-138, the body of the loop for one entry of \<open>configs\<close>. An exception leaves
  the loop with the state as it is at that point.
\<close>

definition train_model ::
  "'m library \<Rightarrow> LabelEncoder \<Rightarrow> split \<Rightarrow> string \<times> pipeline \<Rightarrow> (string \<times> rat) list \<Rightarrow> 'm world
     \<Rightarrow> (error + (string \<times> rat) list) \<times> 'm world" where
  "train_model lib enc d cfg results w =
     (let name = fst cfg;
          w1 = w\<lparr>fitted := fitted w @ [name]\<rparr>
      in case fit_and_score lib enc d name (snd cfg) of
           Inl e \<Rightarrow> (Inl e, w1)
         | Inr (m, acc) \<Rightarrow>
             (let results' = dict_set results name acc;
                  data = \<lparr>model = m, features = FEATURES,
                          label_encoder = (if name = ''XGBoost'' then Some enc else None)\<rparr>;
                  path = name @ ''.pkl''
              in case open_file lib path of
                   Some e \<Rightarrow> (Inl e, w1)
                 | None \<Rightarrow>
                     (case pickle_dump lib data of
                        Some e \<Rightarrow> (Inl e, w1\<lparr>files := (files w1)(path \<mapsto> Partial)\<rparr>)
                      | None \<Rightarrow> (Inr results', w1\<lparr>files := (files w1)(path \<mapsto> Pickle data)\<rparr>))))"

fun train_loop ::
  "'m library \<Rightarrow> LabelEncoder \<Rightarrow> split \<Rightarrow> (string \<times> pipeline) list \<Rightarrow> (string \<times> rat) list
     \<Rightarrow> 'm world \<Rightarrow> (error + (string \<times> rat) list) \<times> 'm world" where
  "train_loop lib enc d [] results w = (Inr results, w)"
| "train_loop lib enc d (cfg # cfgs) results w =
     (case train_model lib enc d cfg results w of
        (Inl e, w') \<Rightarrow> (Inl e, w')
      | (Inr results', w') \<Rightarrow> train_loop lib enc d cfgs results' w')"

subsection \<open>Lines 140-151: the best model\<close>

text \<open>
  \<open>max(items, key=...)\<close> keeps its first item and replaces it by a later one only when
  the later key is greater; on no item it raises.
\<close>

fun py_max :: "('a \<Rightarrow> rat) \<Rightarrow> 'a list \<Rightarrow> error + 'a" where
  "py_max key [] = Inl (ValueError ''max() arg is an empty sequence'')"
| "py_max key (x # xs) = Inr (foldl (\<lambda>best v. if key v > key best then v else best) x xs)"

definition choose_best ::
  "'m library \<Rightarrow> (string \<times> rat) list \<Rightarrow> 'm world \<Rightarrow> (error + (string \<times> rat) list) \<times> 'm world" where
  "choose_best lib results w =
     (case py_max snd results of
        Inl e \<Rightarrow> (Inl e, w)
      | Inr best \<Rightarrow>
          (case open_file lib ''BEST.txt'' of
             Some e \<Rightarrow> (Inl e, w)
           | None \<Rightarrow> (Inr results, w\<lparr>files := (files w)(''BEST.txt'' \<mapsto> Text (fst best))\<rparr>)))"

subsection \<open>\<open>train_all\<close>, from the prepared frame on\<close>

text \<open>
  Lines 27-151. Lines 23-25 (creating the directory and loading the frame through the
  data loader) come before: \<open>df\<close> is the frame they produce and \<open>w\<close> the state of the
  models directory at that point. Printing is left out. \<open>prepare\<close> is lines 27-41: the
  feature matrix \<open>X\<close>, the labels \<open>y\<close>, the fitted encoder and the encoded labels.
\<close>

definition prepare :: "frame \<Rightarrow> error + cell list list \<times> string list \<times> LabelEncoder \<times> nat list" where
  "prepare df =
     (let df' = fill_stellar_temp df
      in case select_features df' of
           Inl e \<Rightarrow> Inl e
         | Inr X \<Rightarrow>
             (let y = label df';
                  fitted_pair = fit_transform y
              in Inr (X, y, fst fitted_pair, snd fitted_pair)))"

definition train_all ::
  "'m library \<Rightarrow> frame \<Rightarrow> 'm world \<Rightarrow> (error + (string \<times> rat) list) \<times> 'm world" where
  "train_all lib df w =
     (case prepare df of
        Inl e \<Rightarrow> (Inl e, w)
      | Inr (X, y, enc, y_encoded) \<Rightarrow>
          (case split_data lib X y y_encoded of
             Inl e \<Rightarrow> (Inl e, w)
           | Inr d \<Rightarrow>
               (case train_loop lib enc d configs [] w of
                  (Inl e, w') \<Rightarrow> (Inl e, w')
                | (Inr results, w') \<Rightarrow> choose_best lib results w')))"

text \<open>The dictionary \<open>model_data\<close> of lines 133-135 for the pipeline \<open>name\<close>.\<close>

definition artifact :: "LabelEncoder \<Rightarrow> string \<Rightarrow> 'm \<Rightarrow> 'm model_data" where
  "artifact enc name m =
     \<lparr>model = m, features = FEATURES,
      label_encoder = (if name = ''XGBoost'' then Some enc else None)\<rparr>"

subsection \<open>Sample frames and a small library to run the model on\<close>

text \<open>
  A library that computes: the split takes the leading rows as the test set, a fitted
  pipeline is the one label it always predicts (the last training label for the support
  vector classifier, the first for the others), and the accuracy is the fraction of
  equal labels. \<open>failing_fit name\<close> is the same library, except that fitting the
  classifier \<open>name\<close> raises.
\<close>

definition leading_rows :: "nat \<Rightarrow> size_arg \<Rightarrow> nat list option \<Rightarrow> error + nat list \<times> nat list" where
  "leading_rows n tsize idx =
     (let k = (case tsize of Count c \<Rightarrow> nat c | Fraction f \<Rightarrow> nat \<lceil>f * of_nat n\<rceil>)
      in if 0 < k \<and> k < n then Inr ([k..<n], [0..<k])
         else Inl (ValueError ''test_size is out of range''))"

definition constant_fit :: "pipeline \<Rightarrow> cell list list \<Rightarrow> pyval list \<Rightarrow> error + pyval" where
  "constant_fit pipe X y =
     (case y of
        [] \<Rightarrow> Inl (ValueError ''Found array with 0 sample(s)'')
      | v # vs \<Rightarrow>
          (case map_of pipe ''clf'' of
             Some (Clf (SVC k p c g r m)) \<Rightarrow> Inr (last (v # vs))
           | other \<Rightarrow> Inr v))"

definition constant_predict :: "pyval \<Rightarrow> cell list list \<Rightarrow> error + pyval list" where
  "constant_predict m X = Inr (replicate (case X of [] \<Rightarrow> 0 | col # cols \<Rightarrow> length col) m)"

definition matching_fraction :: "pyval list \<Rightarrow> pyval list \<Rightarrow> error + rat" where
  "matching_fraction y_true y_pred =
     (if length y_true \<noteq> length y_pred \<or> y_true = []
      then Inl (ValueError ''Found input variables with inconsistent numbers of samples'')
      else Inr (of_nat (length (filter (\<lambda>p. fst p = snd p) (zip y_true y_pred)))
                / of_nat (length y_true)))"

definition stub_library :: "pyval library" where
  "stub_library =
     \<lparr>shuffle_split = leading_rows, fit = constant_fit, predict = constant_predict,
      accuracy_score = matching_fraction, open_file = (\<lambda>path. None),
      pickle_dump = (\<lambda>data. None)\<rparr>"


definition empty_dir :: "pyval world" where
  "empty_dir = \<lparr>files = Map.empty, fitted = []\<rparr>"

definition six_rows :: frame where
  "six_rows =
     \<lparr>orbital_period = [Some 1, Some 2, Some 3, Some 4, Some 5, Some 6],
      transit_duration = [Some 2, Some 2, Some 3, Some 3, Some 4, Some 4],
      planet_radius = [Some 1, Some 1, Some 1, Some 2, Some 2, Some 2],
      stellar_temp = Some [Some 5000, None, Some 6000, Some 5500, None, Some 4000],
      label = [''FALSE POSITIVE'', ''FALSE POSITIVE'', ''CONFIRMED'', ''CANDIDATE'',
               ''CONFIRMED'', ''FALSE POSITIVE'']\<rparr>"

definition tied_rows :: frame where
  "tied_rows =
     six_rows\<lparr>label := [''CONFIRMED'', ''FALSE POSITIVE'', ''CONFIRMED'', ''CANDIDATE'',
                         ''FALSE POSITIVE'', ''CONFIRMED'']\<rparr>"

definition three_rows :: frame where
  "three_rows =
     \<lparr>orbital_period = [Some 1, Some 2, Some 3],
      transit_duration = [Some 2, Some 2, Some 3],
      planet_radius = [Some 1, Some 1, Some 1],
      stellar_temp = None,
      label = [''CONFIRMED'', ''CANDIDATE'', ''CONFIRMED'']\<rparr>"

definition ten_labels :: "string list" where
  "ten_labels =
     [''CONFIRMED'', ''CANDIDATE'', ''CONFIRMED'', ''CANDIDATE'', ''CONFIRMED'',
      ''CANDIDATE'', ''CONFIRMED'', ''CANDIDATE'', ''CONFIRMED'', ''CANDIDATE'']"

text \<open>
  Frames with given labels: the features are the row number, 2 and 1, and the column
  \<open>stellar_temp\<close> is absent. Nine rows, ten rows of two classes with five members each,
  eleven rows where one class has a single member, and fifty rows.
\<close>

definition labelled_rows :: "string list \<Rightarrow> frame" where
  "labelled_rows ls =
     \<lparr>orbital_period = map (\<lambda>i. Some (of_nat i)) [0..<length ls],
      transit_duration = replicate (length ls) (Some 2),
      planet_radius = replicate (length ls) (Some 1),
      stellar_temp = None,
      label = ls\<rparr>"

definition nine_rows :: frame where
  "nine_rows = labelled_rows (butlast ten_labels)"

definition ten_rows :: frame where
  "ten_rows = labelled_rows ten_labels"

definition eleven_rows :: frame where
  "eleven_rows = labelled_rows (''FALSE POSITIVE'' # ten_labels)"

definition fifty_rows :: frame where
  "fifty_rows = labelled_rows (concat (replicate 5 ten_labels))"

section \<open>Properties\<close>

subsection \<open>Preparation\<close>

lemma select_features_fill:
  "select_features (fill_stellar_temp df) =
     Inr [orbital_period df, transit_duration df, planet_radius df,
          (case stellar_temp df of
             Some col \<Rightarrow> fillna col (median col)
           | None \<Rightarrow> replicate (nrows df) (Some 0))]"
  by (simp add: select_features_def fill_stellar_temp_def split: option.splits)

lemma label_fill: "label (fill_stellar_temp df) = label df"
  by (simp add: fill_stellar_temp_def split: option.splits)

text \<open>Preparation never raises on a frame of this type.\<close>

lemma prepare_eq:
  "prepare df =
     Inr ([orbital_period df, transit_duration df, planet_radius df,
           (case stellar_temp df of
              Some col \<Rightarrow> fillna col (median col)
            | None \<Rightarrow> replicate (nrows df) (Some 0))],
          label df, \<lparr>classes = unique (label df)\<rparr>, unique_inverse (label df))"
  by (simp add: prepare_def Let_def select_features_fill label_fill fit_transform_def)

text \<open>
  C6. A missing cell of \<open>stellar_temp\<close> becomes the median of the column and every other
  cell stays; an absent column becomes a column of zeros, one per row; the three other
  feature columns and the labels are not touched.
\<close>

theorem fill_stellar_temp_spec:
  "(\<forall>col. stellar_temp df = Some col \<longrightarrow>
      (\<exists>col'. stellar_temp (fill_stellar_temp df) = Some col' \<and> length col' = length col \<and>
         (\<forall>i<length col. col' ! i = (case col ! i of None \<Rightarrow> median col | Some v \<Rightarrow> Some v))))
   \<and> (stellar_temp df = None \<longrightarrow>
        stellar_temp (fill_stellar_temp df) = Some (replicate (nrows df) (Some 0)))
   \<and> orbital_period (fill_stellar_temp df) = orbital_period df
   \<and> transit_duration (fill_stellar_temp df) = transit_duration df
   \<and> planet_radius (fill_stellar_temp df) = planet_radius df
   \<and> label (fill_stellar_temp df) = label df"
  by (auto simp: fill_stellar_temp_def fillna_def split: option.splits)

theorem fill_stellar_temp_witness:
  "stellar_temp six_rows = Some [Some 5000, None, Some 6000, Some 5500, None, Some 4000]
   \<and> median [Some 5000, None, Some 6000, Some 5500, None, Some 4000] = Some 5250
   \<and> (\<exists>col'. stellar_temp (fill_stellar_temp six_rows) = Some col' \<and> length col' = 6
         \<and> col' ! 0 = Some 5000 \<and> col' ! 1 = Some 5250)
   \<and> stellar_temp three_rows = None
   \<and> stellar_temp (fill_stellar_temp three_rows) = Some [Some 0, Some 0, Some 0]"
proof -
  let ?col = "[Some 5000, None, Some 6000, Some 5500, None, Some (4000::rat)]"
  have col: "stellar_temp six_rows = Some ?col"
    by (simp add: six_rows_def)
  have med: "median ?col = Some 5250"
    by code_simp
  from fill_stellar_temp_spec [of six_rows] col obtain col' where
    c: "stellar_temp (fill_stellar_temp six_rows) = Some col'" "length col' = length ?col"
    and each: "\<forall>i<length ?col. col' ! i = (case ?col ! i of None \<Rightarrow> median ?col | Some v \<Rightarrow> Some v)"
    by blast
  from each have "col' ! 0 = Some 5000" by simp
  moreover from each have "col' ! 1 = (case ?col ! 1 of None \<Rightarrow> median ?col | Some v \<Rightarrow> Some v)"
    by (metis length_Cons less_numeral_extra(1) list.size(3) One_nat_def Suc_less_eq zero_less_Suc)
  then have "col' ! 1 = Some 5250" using med by simp
  moreover have none: "stellar_temp three_rows = None"
    by (simp add: three_rows_def)
  moreover from fill_stellar_temp_spec [of three_rows] none
  have "stellar_temp (fill_stellar_temp three_rows) = Some [Some 0, Some 0, Some 0]"
    by (simp add: nrows_def three_rows_def numeral_3_eq_3)
  ultimately show ?thesis using col med c by auto
qed

subsection \<open>The split strategy\<close>

text \<open>Line 45, written out: the fraction 0.2 from 50 rows on, a count below.\<close>

lemma test_size_unfold:
  "test_size (int n) =
     (if 50 \<le> n then Fraction (2 / 10)
      else Count (max 2 (min (int n div 3) (int n - 1))))"
  by (simp add: test_size_def)

text \<open>The count leaves rows on both sides once the frame has passed validation.\<close>

lemma test_size_in_range:
  "4 \<le> n \<Longrightarrow> n < 50 \<Longrightarrow> \<exists>k. test_size n = Count k \<and> 2 \<le> k \<and> k < n"
  by (simp add: test_size_def)

lemma min_list_ge: "xs \<noteq> [] \<Longrightarrow> (k \<le> min_list xs) = (\<forall>x\<in>set xs. (k::nat) \<le> x)"
  by (simp add: min_list_Min)

lemma nunique_card: "nunique y = card (set y)"
  by (simp add: nunique_def length_remdups_card_conv)

lemma stratify_cases: "stratify y = None \<or> stratify y = Some y"
  by (simp add: stratify_def)

text \<open>
  Line 46, written out: the labels are the stratification argument exactly when there are
  at least two classes, every class has at least two members and there are at least ten
  rows; otherwise the argument is \<open>None\<close>.
\<close>

lemma stratify_iff:
  "(stratify y = Some y) =
     (2 \<le> card (set y) \<and> (\<forall>c\<in>set y. 2 \<le> count_list y c) \<and> 10 \<le> length y)
   \<and> (stratify y = None) =
     (\<not> (2 \<le> card (set y) \<and> (\<forall>c\<in>set y. 2 \<le> count_list y c) \<and> 10 \<le> length y))"
proof (cases "2 \<le> nunique y")
  case True
  then have ne: "map snd (value_counts y) \<noteq> []"
    by (auto simp: nunique_def value_counts_def)
  have "(2 \<le> min_list (map snd (value_counts y))) = (\<forall>c\<in>set y. 2 \<le> count_list y c)"
    using ne by (simp add: min_list_ge) (simp add: value_counts_def)
  with True show ?thesis
    by (simp add: stratify_def nunique_card)
next
  case False
  then show ?thesis by (simp add: stratify_def nunique_card)
qed

subsection \<open>Validation\<close>

lemma split_data_small:
  "length y < 4 \<Longrightarrow> split_data lib X y ye =
     Inl (ValueError ''Dataset must contain at least 4 samples to train and test models.'')"
  by (simp add: split_data_def Let_def)

lemma split_data_one_class:
  "\<not> length y < 4 \<Longrightarrow> nunique y < 2 \<Longrightarrow> split_data lib X y ye =
     Inl (ValueError ''Dataset must contain at least two classes to train a classifier.'')"
  by (simp add: split_data_def Let_def)

text \<open>
  C1. On a frame with fewer than 4 rows, or with fewer than 2 distinct labels,
  \<open>train_all\<close> raises the \<open>ValueError\<close> of its validation, whatever the libraries would
  do: no pipeline has been fitted and no file of the models directory has changed.
\<close>

theorem validation_error_before_training:
  assumes "length (label df) < 4 \<or> card (set (label df)) < 2"
  shows "fst (train_all lib df w) =
           Inl (ValueError (if length (label df) < 4
             then ''Dataset must contain at least 4 samples to train and test models.''
             else ''Dataset must contain at least two classes to train a classifier.''))
         \<and> files (snd (train_all lib df w)) = files w
         \<and> fitted (snd (train_all lib df w)) = fitted w"
proof (cases "length (label df) < 4")
  case True
  then show ?thesis
    by (simp add: train_all_def prepare_eq split_data_small)
next
  case False
  with assms have "nunique (label df) < 2" by (simp add: nunique_card)
  with False show ?thesis
    by (simp add: train_all_def prepare_eq split_data_one_class)
qed

theorem validation_error_witness:
  "length (label three_rows) < 4
   \<and> fst (train_all stub_library three_rows empty_dir) =
       Inl (ValueError ''Dataset must contain at least 4 samples to train and test models.'')
   \<and> files (snd (train_all stub_library three_rows empty_dir)) = Map.empty
   \<and> fitted (snd (train_all stub_library three_rows empty_dir)) = []"
proof -
  have "length (label three_rows) < 4" by (simp add: three_rows_def)
  with validation_error_before_training [of three_rows stub_library empty_dir]
  show ?thesis by (simp add: empty_dir_def)
qed

subsection \<open>The label encoder and the second split\<close>

lemma sorted_unique: "sorted (unique ys)"
  by (simp add: unique_def)

lemma distinct_unique: "distinct (unique ys)"
  by (simp add: unique_def)

lemma set_unique: "set (unique ys) = set ys"
  by (simp add: unique_def)

lemma index_of_less: "x \<in> set cs \<Longrightarrow> index_of cs x < length cs"
  by (induction cs) auto

lemma nth_index_of: "x \<in> set cs \<Longrightarrow> cs ! index_of cs x = x"
  by (induction cs) auto

lemma index_of_nth: "distinct cs \<Longrightarrow> i < length cs \<Longrightarrow> index_of cs (cs ! i) = i"
proof (induction cs arbitrary: i)
  case Nil
  then show ?case by simp
next
  case (Cons c cs)
  show ?case
  proof (cases i)
    case 0
    then show ?thesis by simp
  next
    case (Suc j)
    with Cons.prems have "j < length cs" and "c \<noteq> cs ! j" by auto
    with Cons.IH Cons.prems Suc show ?thesis by simp
  qed
qed

lemma set_unique_inverse: "set (unique_inverse ys) = {0..<length (unique ys)}"
proof
  show "set (unique_inverse ys) \<subseteq> {0..<length (unique ys)}"
    by (auto simp: unique_inverse_def set_unique index_of_less)
next
  show "{0..<length (unique ys)} \<subseteq> set (unique_inverse ys)"
  proof
    fix i assume "i \<in> {0..<length (unique ys)}"
    then have i: "i < length (unique ys)" by simp
    then have "unique ys ! i \<in> set ys"
      using set_unique [of ys] nth_mem by blast
    moreover have "index_of (unique ys) (unique ys ! i) = i"
      using i by (simp add: index_of_nth distinct_unique)
    ultimately show "i \<in> set (unique_inverse ys)"
      unfolding unique_inverse_def by force
  qed
qed

lemma unique_of_codes: "unique (unique_inverse ys) = [0..<length (unique ys)]"
proof -
  have "unique (unique_inverse ys) = sorted_list_of_set (set (unique_inverse ys))"
    by (simp add: unique_def sorted_list_of_set_sort_remdups)
  then show ?thesis by (simp add: set_unique_inverse)
qed

lemma index_of_upt: "i < k \<Longrightarrow> index_of [0..<k] i = i"
  using index_of_nth [of "[0..<k]" i] by simp

lemma unique_inverse_idem: "unique_inverse (unique_inverse ys) = unique_inverse ys"
proof -
  have "index_of [0..<length (unique ys)] c = c" if "c \<in> set (unique_inverse ys)" for c
    using that by (simp add: set_unique_inverse index_of_upt)
  then have "map (index_of [0..<length (unique ys)]) (unique_inverse ys) = unique_inverse ys"
    by (simp add: map_idI)
  then show ?thesis
    by (simp add: unique_inverse_def [of "unique_inverse ys"] unique_of_codes)
qed

lemma stratify_arg_encoded:
  "map_option unique_inverse (if stratify y \<noteq> None then Some (unique_inverse y) else None)
     = map_option unique_inverse (stratify y)"
  using stratify_cases [of y] by (auto simp: unique_inverse_idem)

lemma train_test_split_encoded:
  assumes "train_test_split lib X y tsize (stratify y) = Inr (Xtr, Xte, ytr, yte)"
  shows "train_test_split lib X (unique_inverse y) tsize
           (if stratify y \<noteq> None then Some (unique_inverse y) else None)
         = Inr (Xtr, Xte, map (index_of (unique y)) ytr, map (index_of (unique y)) yte)"
proof -
  have len: "length (unique_inverse y) = length y"
    by (simp add: unique_inverse_def)
  have sel: "map (nth (unique_inverse y)) idx = map (index_of (unique y)) (map (nth y) idx)"
    if "list_all (\<lambda>i. i < length y) idx" for idx
    using that by (simp add: unique_inverse_def list_all_iff)
  from assms show ?thesis
    unfolding train_test_split_def len stratify_arg_encoded
    by (auto split: if_splits sum.splits prod.splits simp: sel)
qed



lemma split_data_Inr:
  assumes "split_data lib X y ye = Inr d"
  shows "\<exists>Xtr Xte ytr yte Xtr' Xte' ytr' yte'.
           train_test_split lib X y (test_size (int (length y))) (stratify y)
             = Inr (Xtr, Xte, ytr, yte)
         \<and> train_test_split lib X ye (test_size (int (length y)))
               (if stratify y \<noteq> None then Some ye else None)
             = Inr (Xtr', Xte', ytr', yte')
         \<and> d = \<lparr>X_train = Xtr, X_test = Xte, y_train = ytr, y_test = yte,
                 y_train_encoded = ytr', y_test_encoded = yte'\<rparr>"
  using assms unfolding split_data_def Let_def
  by (auto split: if_splits sum.splits prod.splits)

lemma train_test_split_Inr:
  assumes "train_test_split lib X y tsize strat = Inr (Xtr, Xte, ytr, yte)"
  shows "\<exists>train test.
           shuffle_split lib (length y) tsize (map_option unique_inverse strat) = Inr (train, test)
         \<and> list_all (\<lambda>i. i < length y) (train @ test)
         \<and> Xtr = map (\<lambda>col. map (nth col) train) X \<and> Xte = map (\<lambda>col. map (nth col) test) X
         \<and> ytr = map (nth y) train \<and> yte = map (nth y) test"
  using assms unfolding train_test_split_def
  by (auto split: if_splits sum.splits prod.splits)

text \<open>
  C2. Both calls of \<open>train_test_split\<close> in \<open>train_all\<close> are given the same test size: the
  fraction 0.2 when the frame has at least 50 rows, the count
  \<open>max(2, min(n // 3, n - 1))\<close> when it has \<open>n < 50\<close> rows, which is 3 for 9 rows. That size,
  with the number of rows, is what the splitter of the library receives, and the training
  and test parts of the split are the rows at the positions it returns.
\<close>

theorem split_uses_test_size:
  assumes "prepare df = Inr (X, y, enc, y_encoded)"
    and "split_data lib X y y_encoded = Inr d"
  shows "\<exists>tsz train test Xtr' Xte'.
           tsz = (if 50 \<le> length (label df) then Fraction (2 / 10)
                  else Count (max 2 (min (int (length (label df)) div 3)
                                         (int (length (label df)) - 1))))
         \<and> (length (label df) = 9 \<longrightarrow> tsz = Count 3)
         \<and> train_test_split lib X y tsz (stratify y)
             = Inr (X_train d, X_test d, y_train d, y_test d)
         \<and> train_test_split lib X y_encoded tsz
               (if stratify y \<noteq> None then Some y_encoded else None)
             = Inr (Xtr', Xte', y_train_encoded d, y_test_encoded d)
         \<and> shuffle_split lib (length (label df)) tsz (map_option unique_inverse (stratify y))
             = Inr (train, test)
         \<and> X_train d = map (\<lambda>col. map (nth col) train) X
         \<and> X_test d = map (\<lambda>col. map (nth col) test) X
         \<and> y_train d = map (nth y) train \<and> y_test d = map (nth y) test"
proof -
  let ?tsz = "if 50 \<le> length (label df) then Fraction (2 / 10)
              else Count (max 2 (min (int (length (label df)) div 3)
                                     (int (length (label df)) - 1)))"
  from assms(1) have y: "y = label df"
    by (auto simp: prepare_eq)
  have ts: "test_size (int (length y)) = ?tsz"
    unfolding y by (rule test_size_unfold)
  have nine: "length (label df) = 9 \<longrightarrow> ?tsz = Count 3"
    by simp
  from split_data_Inr [OF assms(2)] obtain Xtr Xte ytr yte Xtr' Xte' ytr' yte' where
    first: "train_test_split lib X y (test_size (int (length y))) (stratify y)
              = Inr (Xtr, Xte, ytr, yte)"
    and second: "train_test_split lib X y_encoded (test_size (int (length y)))
              (if stratify y \<noteq> None then Some y_encoded else None) = Inr (Xtr', Xte', ytr', yte')"
    and d: "d = \<lparr>X_train = Xtr, X_test = Xte, y_train = ytr, y_test = yte,
                 y_train_encoded = ytr', y_test_encoded = yte'\<rparr>"
    by (elim exE conjE) (rule that)
  from train_test_split_Inr [OF first] obtain train test where
    sp: "shuffle_split lib (length y) (test_size (int (length y)))
           (map_option unique_inverse (stratify y)) = Inr (train, test)"
    and Xtr: "Xtr = map (\<lambda>col. map (nth col) train) X"
    and Xte: "Xte = map (\<lambda>col. map (nth col) test) X"
    and ytr: "ytr = map (nth y) train" and yte: "yte = map (nth y) test"
    by (elim exE conjE) (rule that)
  have a: "train_test_split lib X y ?tsz (stratify y)
             = Inr (X_train d, X_test d, y_train d, y_test d)"
    using first unfolding ts d by simp
  have b: "train_test_split lib X y_encoded ?tsz
               (if stratify y \<noteq> None then Some y_encoded else None)
             = Inr (Xtr', Xte', y_train_encoded d, y_test_encoded d)"
    using second unfolding ts d by simp
  have c: "shuffle_split lib (length (label df)) ?tsz (map_option unique_inverse (stratify y))
             = Inr (train, test)"
    using sp unfolding ts unfolding y .
  have e: "X_train d = map (\<lambda>col. map (nth col) train) X"
    "X_test d = map (\<lambda>col. map (nth col) test) X"
    "y_train d = map (nth y) train" "y_test d = map (nth y) test"
    unfolding d using Xtr Xte ytr yte by simp_all
  from refl [of ?tsz] nine a b c e show ?thesis
    by (intro exI conjI)
qed

theorem split_uses_test_size_witness:
  "(\<exists>X y enc ye d.
       prepare nine_rows = Inr (X, y, enc, ye) \<and> length y = 9
     \<and> split_data stub_library X y ye = Inr d
     \<and> train_test_split stub_library X y (Count 3) (stratify y)
         = Inr (X_train d, X_test d, y_train d, y_test d)
     \<and> shuffle_split stub_library 9 (Count 3) (map_option unique_inverse (stratify y))
         = Inr ([3, 4, 5, 6, 7, 8], [0, 1, 2])
     \<and> y_test d = [''CONFIRMED'', ''CANDIDATE'', ''CONFIRMED''])
   \<and> (\<exists>X y enc ye d.
       prepare fifty_rows = Inr (X, y, enc, ye) \<and> length y = 50
     \<and> split_data stub_library X y ye = Inr d
     \<and> train_test_split stub_library X y (Fraction (2 / 10)) (stratify y)
         = Inr (X_train d, X_test d, y_train d, y_test d)
     \<and> shuffle_split stub_library 50 (Fraction (2 / 10)) (map_option unique_inverse (stratify y))
         = Inr ([10..<50], [0..<10])
     \<and> length (y_test d) = 10)"
proof -
  let ?X = "[orbital_period nine_rows, transit_duration nine_rows, planet_radius nine_rows,
             replicate 9 (Some 0)]"
  let ?y = "label nine_rows"
  let ?enc = "\<lparr>classes = [''CANDIDATE'', ''CONFIRMED'']\<rparr>"
  let ?ye = "unique_inverse (label nine_rows)"
  let ?d = "\<lparr>X_train = map (drop 3) ?X, X_test = map (take 3) ?X,
             y_train = drop 3 ?y, y_test = take 3 ?y,
             y_train_encoded = drop 3 ?ye, y_test_encoded = take 3 ?ye\<rparr>"
  have n: "length (label nine_rows) = 9"
    by code_simp
  have p: "prepare nine_rows = Inr (?X, ?y, ?enc, ?ye)"
    by code_simp
  have s: "split_data stub_library ?X ?y ?ye = Inr ?d"
    by code_simp
  have t: "y_test ?d = [''CONFIRMED'', ''CANDIDATE'', ''CONFIRMED'']"
    by code_simp
  from split_uses_test_size [OF p s] obtain tsz train test Xtr' Xte' where
    tsz: "tsz = (if 50 \<le> length (label nine_rows) then Fraction (2 / 10)
                 else Count (max 2 (min (int (length (label nine_rows)) div 3)
                                        (int (length (label nine_rows)) - 1))))"
    and nine: "length (label nine_rows) = 9 \<longrightarrow> tsz = Count 3"
    and first: "train_test_split stub_library ?X ?y tsz (stratify ?y)
                  = Inr (X_train ?d, X_test ?d, y_train ?d, y_test ?d)"
    and second: "train_test_split stub_library ?X ?ye tsz
                   (if stratify ?y \<noteq> None then Some ?ye else None)
                  = Inr (Xtr', Xte', y_train_encoded ?d, y_test_encoded ?d)"
    and sp: "shuffle_split stub_library (length (label nine_rows)) tsz
               (map_option unique_inverse (stratify ?y)) = Inr (train, test)"
    and rest: "X_train ?d = map (\<lambda>col. map (nth col) train) ?X"
      "X_test ?d = map (\<lambda>col. map (nth col) test) ?X"
      "y_train ?d = map (nth ?y) train" "y_test ?d = map (nth ?y) test"
    by (elim exE conjE) (rule that)
  from nine n have c3: "tsz = Count 3" by simp
  have lr: "shuffle_split stub_library 9 (Count 3) (map_option unique_inverse (stratify ?y))
              = Inr ([3, 4, 5, 6, 7, 8], [0, 1, 2])"
    by code_simp
  have A: "\<exists>X y enc ye d.
       prepare nine_rows = Inr (X, y, enc, ye) \<and> length y = 9
     \<and> split_data stub_library X y ye = Inr d
     \<and> train_test_split stub_library X y (Count 3) (stratify y)
         = Inr (X_train d, X_test d, y_train d, y_test d)
     \<and> shuffle_split stub_library 9 (Count 3) (map_option unique_inverse (stratify y))
         = Inr ([3, 4, 5, 6, 7, 8], [0, 1, 2])
     \<and> y_test d = [''CONFIRMED'', ''CANDIDATE'', ''CONFIRMED'']"
    using p n s first [unfolded c3] lr t by (intro exI conjI)
  let ?X = "[orbital_period fifty_rows, transit_duration fifty_rows, planet_radius fifty_rows,
             replicate 50 (Some 0)]"
  let ?y = "label fifty_rows"
  let ?ye = "unique_inverse (label fifty_rows)"
  let ?d = "\<lparr>X_train = map (drop 10) ?X, X_test = map (take 10) ?X,
             y_train = drop 10 ?y, y_test = take 10 ?y,
             y_train_encoded = drop 10 ?ye, y_test_encoded = take 10 ?ye\<rparr>"
  have n: "length (label fifty_rows) = 50"
    by code_simp
  have p: "prepare fifty_rows = Inr (?X, ?y, ?enc, ?ye)"
    by code_simp
  have s: "split_data stub_library ?X ?y ?ye = Inr ?d"
    by code_simp
  have t: "length (y_test ?d) = 10"
    by code_simp
  from split_uses_test_size [OF p s] obtain tsz train test Xtr' Xte' where
    tsz: "tsz = (if 50 \<le> length (label fifty_rows) then Fraction (2 / 10)
                 else Count (max 2 (min (int (length (label fifty_rows)) div 3)
                                        (int (length (label fifty_rows)) - 1))))"
    and first: "train_test_split stub_library ?X ?y tsz (stratify ?y)
                  = Inr (X_train ?d, X_test ?d, y_train ?d, y_test ?d)"
    by (elim exE conjE) (rule that)
  from tsz n have f: "tsz = Fraction (2 / 10)" by simp
  have lr: "shuffle_split stub_library 50 (Fraction (2 / 10))
              (map_option unique_inverse (stratify ?y)) = Inr ([10..<50], [0..<10])"
    by code_simp
  have B: "\<exists>X y enc ye d.
       prepare fifty_rows = Inr (X, y, enc, ye) \<and> length y = 50
     \<and> split_data stub_library X y ye = Inr d
     \<and> train_test_split stub_library X y (Fraction (2 / 10)) (stratify y)
         = Inr (X_train d, X_test d, y_train d, y_test d)
     \<and> shuffle_split stub_library 50 (Fraction (2 / 10)) (map_option unique_inverse (stratify y))
         = Inr ([10..<50], [0..<10])
     \<and> length (y_test d) = 10"
    using p n s first [unfolded f] lr t by (intro exI conjI)
  from A B show ?thesis by (rule conjI)
qed

text \<open>
  C3. The split is stratified exactly when the labels have at least two classes, every
  class has at least two members and there are at least ten rows: then the first call of
  \<open>train_test_split\<close> is given the labels as \<open>stratify\<close>, the second the encoded labels, and
  the splitter of the library receives their class indices. In every other case, in
  particular when some class has fewer than two members, both calls are given \<open>None\<close>
  and the splitter receives no class indices.
\<close>

theorem split_stratified_iff:
  assumes "prepare df = Inr (X, y, enc, y_encoded)"
    and "split_data lib X y y_encoded = Inr d"
  shows "\<exists>strat strat_encoded idx train test Xtr' Xte'.
           (if 2 \<le> card (set (label df)) \<and> (\<forall>c\<in>set (label df). 2 \<le> count_list (label df) c)
               \<and> 10 \<le> length (label df)
            then strat = Some (label df) \<and> strat_encoded = Some y_encoded
               \<and> idx = Some (unique_inverse (label df))
            else strat = None \<and> strat_encoded = None \<and> idx = None)
         \<and> ((\<exists>c\<in>set (label df). count_list (label df) c < 2) \<longrightarrow>
              strat = None \<and> strat_encoded = None \<and> idx = None)
         \<and> train_test_split lib X y (test_size (int (length y))) strat
             = Inr (X_train d, X_test d, y_train d, y_test d)
         \<and> train_test_split lib X y_encoded (test_size (int (length y))) strat_encoded
             = Inr (Xtr', Xte', y_train_encoded d, y_test_encoded d)
         \<and> map_option unique_inverse strat = idx
         \<and> map_option unique_inverse strat_encoded = idx
         \<and> shuffle_split lib (length y) (test_size (int (length y))) idx = Inr (train, test)
         \<and> y_train d = map (nth y) train \<and> y_test d = map (nth y) test"
proof -
  let ?c = "2 \<le> card (set (label df)) \<and> (\<forall>c\<in>set (label df). 2 \<le> count_list (label df) c)
              \<and> 10 \<le> length (label df)"
  from assms(1) have y: "y = label df" and ye: "y_encoded = unique_inverse y"
    by (auto simp: prepare_eq)
  from split_data_Inr [OF assms(2)] obtain Xtr Xte ytr yte Xtr' Xte' ytr' yte' where
    first: "train_test_split lib X y (test_size (int (length y))) (stratify y)
              = Inr (Xtr, Xte, ytr, yte)"
    and second: "train_test_split lib X y_encoded (test_size (int (length y)))
              (if stratify y \<noteq> None then Some y_encoded else None) = Inr (Xtr', Xte', ytr', yte')"
    and d: "d = \<lparr>X_train = Xtr, X_test = Xte, y_train = ytr, y_test = yte,
                 y_train_encoded = ytr', y_test_encoded = yte'\<rparr>"
    by (elim exE conjE) (rule that)
  from train_test_split_Inr [OF first] obtain train test where
    sp: "shuffle_split lib (length y) (test_size (int (length y)))
           (map_option unique_inverse (stratify y)) = Inr (train, test)"
    and ytr: "ytr = map (nth y) train" and yte: "yte = map (nth y) test"
    by (elim exE conjE) (rule that)
  let ?s = "stratify y"
  let ?se = "if stratify y \<noteq> None then Some y_encoded else None"
  let ?i = "map_option unique_inverse (stratify y)"
  have yes: "?c \<Longrightarrow> stratify y = Some y"
    using stratify_iff [of y] unfolding y by blast
  have no: "\<not> ?c \<Longrightarrow> stratify y = None"
    using stratify_iff [of y] unfolding y by blast
  have a: "if ?c then ?s = Some (label df) \<and> ?se = Some y_encoded
               \<and> ?i = Some (unique_inverse (label df))
           else ?s = None \<and> ?se = None \<and> ?i = None"
  proof (cases ?c)
    case True
    from yes [OF True] True show ?thesis unfolding y by simp
  next
    case False
    from no [OF False] False show ?thesis by simp
  qed
  have b: "(\<exists>c\<in>set (label df). count_list (label df) c < 2) \<longrightarrow>
              ?s = None \<and> ?se = None \<and> ?i = None"
  proof
    assume "\<exists>c\<in>set (label df). count_list (label df) c < 2"
    then have "\<not> ?c" by (auto simp: not_le)
    from no [OF this] show "?s = None \<and> ?se = None \<and> ?i = None" by simp
  qed
  have f: "train_test_split lib X y (test_size (int (length y))) ?s
             = Inr (X_train d, X_test d, y_train d, y_test d)"
    using first unfolding d by simp
  have g: "train_test_split lib X y_encoded (test_size (int (length y))) ?se
             = Inr (Xtr', Xte', y_train_encoded d, y_test_encoded d)"
    using second unfolding d by simp
  have h: "map_option unique_inverse ?se = ?i"
    unfolding ye by (rule stratify_arg_encoded)
  have e: "y_train d = map (nth y) train" "y_test d = map (nth y) test"
    unfolding d using ytr yte by simp_all
  from a b f g refl [of ?i] h sp e show ?thesis
    by (intro exI conjI)
qed

theorem split_stratified_witness:
  "card (set (label ten_rows)) = 2 \<and> length (label ten_rows) = 10
   \<and> count_list (label ten_rows) ''CONFIRMED'' = 5
   \<and> count_list (label ten_rows) ''CANDIDATE'' = 5
   \<and> (\<exists>X y enc ye d Xtr' Xte'.
         prepare ten_rows = Inr (X, y, enc, ye)
       \<and> split_data stub_library X y ye = Inr d
       \<and> train_test_split stub_library X y (test_size 10) (Some y)
           = Inr (X_train d, X_test d, y_train d, y_test d)
       \<and> train_test_split stub_library X ye (test_size 10) (Some ye)
           = Inr (Xtr', Xte', y_train_encoded d, y_test_encoded d)
       \<and> shuffle_split stub_library 10 (test_size 10) (Some [1, 0, 1, 0, 1, 0, 1, 0, 1, 0])
           = Inr ([3, 4, 5, 6, 7, 8, 9], [0, 1, 2]))
   \<and> length (label eleven_rows) = 11
   \<and> count_list (label eleven_rows) ''FALSE POSITIVE'' = 1
   \<and> (\<exists>X y enc ye d Xtr' Xte'.
         prepare eleven_rows = Inr (X, y, enc, ye)
       \<and> split_data stub_library X y ye = Inr d
       \<and> train_test_split stub_library X y (test_size 11) None
           = Inr (X_train d, X_test d, y_train d, y_test d)
       \<and> train_test_split stub_library X ye (test_size 11) None
           = Inr (Xtr', Xte', y_train_encoded d, y_test_encoded d)
       \<and> shuffle_split stub_library 11 (test_size 11) None
           = Inr ([3, 4, 5, 6, 7, 8, 9, 10], [0, 1, 2]))"
proof -
  let ?X = "[orbital_period ten_rows, transit_duration ten_rows, planet_radius ten_rows,
             replicate 10 (Some 0)]"
  let ?y = "label ten_rows"
  let ?enc = "\<lparr>classes = [''CANDIDATE'', ''CONFIRMED'']\<rparr>"
  let ?ye = "unique_inverse (label ten_rows)"
  let ?d = "\<lparr>X_train = map (drop 3) ?X, X_test = map (take 3) ?X,
             y_train = drop 3 ?y, y_test = take 3 ?y,
             y_train_encoded = drop 3 ?ye, y_test_encoded = take 3 ?ye\<rparr>"
  have facts: "card (set (label ten_rows)) = 2" "length (label ten_rows) = 10"
    "count_list (label ten_rows) ''CONFIRMED'' = 5"
    "count_list (label ten_rows) ''CANDIDATE'' = 5"
    by code_simp+
  have cond: "2 \<le> card (set (label ten_rows))
      \<and> (\<forall>c\<in>set (label ten_rows). 2 \<le> count_list (label ten_rows) c)
      \<and> 10 \<le> length (label ten_rows)"
    by code_simp
  have codes: "unique_inverse (label ten_rows) = [1, 0, 1, 0, 1, 0, 1, 0, 1, 0]"
    by code_simp
  have p: "prepare ten_rows = Inr (?X, ?y, ?enc, ?ye)"
    by code_simp
  have s: "split_data stub_library ?X ?y ?ye = Inr ?d"
    by code_simp
  from split_stratified_iff [OF p s] obtain strat strat_encoded idx train test Xtr' Xte' where
    c: "if 2 \<le> card (set (label ten_rows))
           \<and> (\<forall>c\<in>set (label ten_rows). 2 \<le> count_list (label ten_rows) c)
           \<and> 10 \<le> length (label ten_rows)
        then strat = Some (label ten_rows) \<and> strat_encoded = Some ?ye
           \<and> idx = Some (unique_inverse (label ten_rows))
        else strat = None \<and> strat_encoded = None \<and> idx = None"
    and first: "train_test_split stub_library ?X ?y (test_size (int (length ?y))) strat
                  = Inr (X_train ?d, X_test ?d, y_train ?d, y_test ?d)"
    and second: "train_test_split stub_library ?X ?ye (test_size (int (length ?y))) strat_encoded
                  = Inr (Xtr', Xte', y_train_encoded ?d, y_test_encoded ?d)"
    and sp: "shuffle_split stub_library (length ?y) (test_size (int (length ?y))) idx
               = Inr (train, test)"
    by (elim exE conjE) (rule that)
  from c cond have st: "strat = Some (label ten_rows)" "strat_encoded = Some ?ye"
    "idx = Some [1, 0, 1, 0, 1, 0, 1, 0, 1, 0]"
    unfolding codes by simp_all
  have lr: "shuffle_split stub_library 10 (test_size 10) (Some [1, 0, 1, 0, 1, 0, 1, 0, 1, 0])
              = Inr ([3, 4, 5, 6, 7, 8, 9], [0, 1, 2])"
    by code_simp
  have f1: "train_test_split stub_library ?X ?y (test_size 10) (Some ?y)
              = Inr (X_train ?d, X_test ?d, y_train ?d, y_test ?d)"
    using first unfolding st facts(2) by simp
  have f2: "train_test_split stub_library ?X ?ye (test_size 10) (Some ?ye)
              = Inr (Xtr', Xte', y_train_encoded ?d, y_test_encoded ?d)"
    using second unfolding st facts(2) by simp
  have A: "\<exists>X y enc ye d Xtr' Xte'.
         prepare ten_rows = Inr (X, y, enc, ye)
       \<and> split_data stub_library X y ye = Inr d
       \<and> train_test_split stub_library X y (test_size 10) (Some y)
           = Inr (X_train d, X_test d, y_train d, y_test d)
       \<and> train_test_split stub_library X ye (test_size 10) (Some ye)
           = Inr (Xtr', Xte', y_train_encoded d, y_test_encoded d)
       \<and> shuffle_split stub_library 10 (test_size 10) (Some [1, 0, 1, 0, 1, 0, 1, 0, 1, 0])
           = Inr ([3, 4, 5, 6, 7, 8, 9], [0, 1, 2])"
    using p s f1 f2 lr by (intro exI conjI)
  let ?X = "[orbital_period eleven_rows, transit_duration eleven_rows, planet_radius eleven_rows,
             replicate 11 (Some 0)]"
  let ?y = "label eleven_rows"
  let ?enc = "\<lparr>classes = [''CANDIDATE'', ''CONFIRMED'', ''FALSE POSITIVE'']\<rparr>"
  let ?ye = "unique_inverse (label eleven_rows)"
  let ?d = "\<lparr>X_train = map (drop 3) ?X, X_test = map (take 3) ?X,
             y_train = drop 3 ?y, y_test = take 3 ?y,
             y_train_encoded = drop 3 ?ye, y_test_encoded = take 3 ?ye\<rparr>"
  have facts': "length (label eleven_rows) = 11"
    "count_list (label eleven_rows) ''FALSE POSITIVE'' = 1"
    by code_simp+
  have single: "\<exists>c\<in>set (label eleven_rows). count_list (label eleven_rows) c < 2"
    by code_simp
  have p: "prepare eleven_rows = Inr (?X, ?y, ?enc, ?ye)"
    by code_simp
  have s: "split_data stub_library ?X ?y ?ye = Inr ?d"
    by code_simp
  from split_stratified_iff [OF p s] obtain strat strat_encoded idx train test Xtr' Xte' where
    c0: "if 2 \<le> card (set (label eleven_rows))
           \<and> (\<forall>c\<in>set (label eleven_rows). 2 \<le> count_list (label eleven_rows) c)
           \<and> 10 \<le> length (label eleven_rows)
        then strat = Some (label eleven_rows) \<and> strat_encoded = Some ?ye
           \<and> idx = Some (unique_inverse (label eleven_rows))
        else strat = None \<and> strat_encoded = None \<and> idx = None"
    and c: "(\<exists>c\<in>set (label eleven_rows). count_list (label eleven_rows) c < 2) \<longrightarrow>
          strat = None \<and> strat_encoded = None \<and> idx = None"
    and first: "train_test_split stub_library ?X ?y (test_size (int (length ?y))) strat
                  = Inr (X_train ?d, X_test ?d, y_train ?d, y_test ?d)"
    and second: "train_test_split stub_library ?X ?ye (test_size (int (length ?y))) strat_encoded
                  = Inr (Xtr', Xte', y_train_encoded ?d, y_test_encoded ?d)"
    by (elim exE conjE) (rule that)
  from c single have st: "strat = None" "strat_encoded = None" "idx = None"
    by simp_all
  have lr: "shuffle_split stub_library 11 (test_size 11) None
              = Inr ([3, 4, 5, 6, 7, 8, 9, 10], [0, 1, 2])"
    by code_simp
  have f1: "train_test_split stub_library ?X ?y (test_size 11) None
              = Inr (X_train ?d, X_test ?d, y_train ?d, y_test ?d)"
    using first unfolding st facts'(1) by simp
  have f2: "train_test_split stub_library ?X ?ye (test_size 11) None
              = Inr (Xtr', Xte', y_train_encoded ?d, y_test_encoded ?d)"
    using second unfolding st facts'(1) by simp
  have B: "\<exists>X y enc ye d Xtr' Xte'.
         prepare eleven_rows = Inr (X, y, enc, ye)
       \<and> split_data stub_library X y ye = Inr d
       \<and> train_test_split stub_library X y (test_size 11) None
           = Inr (X_train d, X_test d, y_train d, y_test d)
       \<and> train_test_split stub_library X ye (test_size 11) None
           = Inr (Xtr', Xte', y_train_encoded d, y_test_encoded d)
       \<and> shuffle_split stub_library 11 (test_size 11) None
           = Inr ([3, 4, 5, 6, 7, 8, 9, 10], [0, 1, 2])"
    using p s f1 f2 lr by (intro exI conjI)
  from facts A facts' B show ?thesis by (intro conjI)
qed

text \<open>
  C10. The two splits of a frame that passed validation draw the same rows: the second
  call passes the same number of rows and the same size, and its stratification labels
  (the codes) have the class indices the labels have, since encoding a list of codes
  gives the codes back. So the encoded test labels are the codes of the test labels,
  row for row, and likewise on the training side.
\<close>

theorem encoded_split_same_rows:
  assumes "prepare df = Inr (X, y, enc, y_encoded)"
    and "split_data lib X y y_encoded = Inr d"
  shows "\<exists>train test.
           shuffle_split lib (length y) (test_size (int (length y)))
             (map_option unique_inverse (stratify y)) = Inr (train, test)
         \<and> y_train d = map (nth y) train \<and> y_test d = map (nth y) test
         \<and> y_train_encoded d = map (nth y_encoded) train
         \<and> y_test_encoded d = map (nth y_encoded) test
         \<and> y_train_encoded d = map (index_of (classes enc)) (y_train d)
         \<and> y_test_encoded d = map (index_of (classes enc)) (y_test d)
         \<and> transform enc (y_test d) = Inr (y_test_encoded d)"
proof -
  from assms(1) have y: "y = label df" and enc: "classes enc = unique y"
    and ye: "y_encoded = unique_inverse y"
    by (auto simp: prepare_eq)
  from split_data_Inr [OF assms(2)] obtain Xtr Xte ytr yte Xtr' Xte' ytr' yte' where
    first: "train_test_split lib X y (test_size (int (length y))) (stratify y)
              = Inr (Xtr, Xte, ytr, yte)"
    and second: "train_test_split lib X y_encoded (test_size (int (length y)))
              (if stratify y \<noteq> None then Some y_encoded else None) = Inr (Xtr', Xte', ytr', yte')"
    and d: "d = \<lparr>X_train = Xtr, X_test = Xte, y_train = ytr, y_test = yte,
                 y_train_encoded = ytr', y_test_encoded = yte'\<rparr>"
    by blast
  from train_test_split_Inr [OF first] obtain train test where
    sp: "shuffle_split lib (length y) (test_size (int (length y)))
           (map_option unique_inverse (stratify y)) = Inr (train, test)"
    and rng: "list_all (\<lambda>i. i < length y) (train @ test)"
    and ytr: "ytr = map (nth y) train" and yte: "yte = map (nth y) test"
    by blast
  from second have second':
    "train_test_split lib X (unique_inverse y) (test_size (int (length y)))
       (if stratify y \<noteq> None then Some (unique_inverse y) else None)
     = Inr (Xtr', Xte', ytr', yte')"
    unfolding ye .
  have "Inr (Xtr', Xte', ytr', yte')
          = (Inr (Xtr, Xte, map (index_of (unique y)) ytr, map (index_of (unique y)) yte)
              :: error + cell list list \<times> cell list list \<times> nat list \<times> nat list)"
    using second' [symmetric] train_test_split_encoded [OF first] by (rule trans)
  then have enc_tr: "ytr' = map (index_of (unique y)) ytr"
    and enc_te: "yte' = map (index_of (unique y)) yte"
    by simp_all
  have sel: "map (index_of (unique y)) (map (nth y) idx) = map (nth (unique_inverse y)) idx"
    if "list_all (\<lambda>i. i < length y) idx" for idx
    using that by (simp add: unique_inverse_def list_all_iff)
  from rng have rtr: "list_all (\<lambda>i. i < length y) train" and rte: "list_all (\<lambda>i. i < length y) test"
    by simp_all
  have mem: "list_all (\<lambda>v. v \<in> set (classes enc)) yte"
    using rte unfolding yte enc by (simp add: list_all_iff set_unique)
  have "transform enc yte = Inr yte'"
    using mem by (simp add: transform_def enc enc_te)
  with sp ytr yte enc_tr enc_te sel [OF rtr] sel [OF rte] show ?thesis
    unfolding d ye enc by auto
qed

theorem encoded_split_witness:
  "prepare six_rows =
     Inr ([[Some 1, Some 2, Some 3, Some 4, Some 5, Some 6],
           [Some 2, Some 2, Some 3, Some 3, Some 4, Some 4],
           [Some 1, Some 1, Some 1, Some 2, Some 2, Some 2],
           [Some 5000, Some 5250, Some 6000, Some 5500, Some 5250, Some 4000]],
          [''FALSE POSITIVE'', ''FALSE POSITIVE'', ''CONFIRMED'', ''CANDIDATE'',
           ''CONFIRMED'', ''FALSE POSITIVE''],
          \<lparr>classes = [''CANDIDATE'', ''CONFIRMED'', ''FALSE POSITIVE'']\<rparr>,
          [2, 2, 1, 0, 1, 2])
   \<and> split_data stub_library
         [[Some 1, Some 2, Some 3, Some 4, Some 5, Some 6],
          [Some 2, Some 2, Some 3, Some 3, Some 4, Some 4],
          [Some 1, Some 1, Some 1, Some 2, Some 2, Some 2],
          [Some 5000, Some 5250, Some 6000, Some 5500, Some 5250, Some 4000]]
         [''FALSE POSITIVE'', ''FALSE POSITIVE'', ''CONFIRMED'', ''CANDIDATE'',
          ''CONFIRMED'', ''FALSE POSITIVE'']
         [2, 2, 1, 0, 1, 2] =
       Inr \<lparr>X_train = [[Some 3, Some 4, Some 5, Some 6], [Some 3, Some 3, Some 4, Some 4],
                         [Some 1, Some 2, Some 2, Some 2],
                         [Some 6000, Some 5500, Some 5250, Some 4000]],
             X_test = [[Some 1, Some 2], [Some 2, Some 2], [Some 1, Some 1],
                       [Some 5000, Some 5250]],
             y_train = [''CONFIRMED'', ''CANDIDATE'', ''CONFIRMED'', ''FALSE POSITIVE''],
             y_test = [''FALSE POSITIVE'', ''FALSE POSITIVE''],
             y_train_encoded = [1, 0, 1, 2], y_test_encoded = [2, 2]\<rparr>
   \<and> transform \<lparr>classes = [''CANDIDATE'', ''CONFIRMED'', ''FALSE POSITIVE'']\<rparr>
         [''FALSE POSITIVE'', ''FALSE POSITIVE''] = Inr [2, 2]"
proof -
  let ?X = "[[Some 1, Some 2, Some 3, Some 4, Some 5, Some 6],
             [Some 2, Some 2, Some 3, Some 3, Some 4, Some 4],
             [Some 1, Some 1, Some 1, Some 2, Some 2, Some 2],
             [Some 5000, Some 5250, Some 6000, Some 5500, Some 5250, Some (4000::rat)]]"
  let ?y = "[''FALSE POSITIVE'', ''FALSE POSITIVE'', ''CONFIRMED'', ''CANDIDATE'',
             ''CONFIRMED'', ''FALSE POSITIVE'']"
  let ?enc = "\<lparr>classes = [''CANDIDATE'', ''CONFIRMED'', ''FALSE POSITIVE'']\<rparr>"
  let ?d = "\<lparr>X_train = [[Some 3, Some 4, Some 5, Some 6], [Some 3, Some 3, Some 4, Some 4],
                         [Some 1, Some 2, Some 2, Some 2],
                         [Some 6000, Some 5500, Some 5250, Some (4000::rat)]],
             X_test = [[Some 1, Some 2], [Some 2, Some 2], [Some 1, Some 1],
                       [Some 5000, Some 5250]],
             y_train = [''CONFIRMED'', ''CANDIDATE'', ''CONFIRMED'', ''FALSE POSITIVE''],
             y_test = [''FALSE POSITIVE'', ''FALSE POSITIVE''],
             y_train_encoded = [1, 0, 1, 2], y_test_encoded = [2, 2::nat]\<rparr>"
  have p: "prepare six_rows = Inr (?X, ?y, ?enc, [2, 2, 1, 0, 1, 2])"
    by code_simp
  have s: "split_data stub_library ?X ?y [2, 2, 1, 0, 1, 2] = Inr ?d"
    by code_simp
  from encoded_split_same_rows [OF p s]
  have "transform ?enc (y_test ?d) = Inr (y_test_encoded ?d)" by blast
  with p s show ?thesis by simp
qed

subsection \<open>The training loop\<close>

lemma train_model_cases:
  "train_model lib enc d cfg r w =
     (case fit_and_score lib enc d (fst cfg) (snd cfg) of
        Inl e \<Rightarrow> (Inl e, w\<lparr>fitted := fitted w @ [fst cfg]\<rparr>)
      | Inr (m, acc) \<Rightarrow>
          (case open_file lib (fst cfg @ ''.pkl'') of
             Some e \<Rightarrow> (Inl e, w\<lparr>fitted := fitted w @ [fst cfg]\<rparr>)
           | None \<Rightarrow>
               (case pickle_dump lib (artifact enc (fst cfg) m) of
                  Some e \<Rightarrow> (Inl e, w\<lparr>fitted := fitted w @ [fst cfg],
                                         files := (files w)(fst cfg @ ''.pkl'' \<mapsto> Partial)\<rparr>)
                | None \<Rightarrow> (Inr (dict_set r (fst cfg) acc),
                            w\<lparr>fitted := fitted w @ [fst cfg],
                              files := (files w)(fst cfg @ ''.pkl'' \<mapsto>
                                         Pickle (artifact enc (fst cfg) m))\<rparr>))))"
  by (simp add: train_model_def artifact_def Let_def split: sum.splits prod.splits option.splits)

lemma train_model_Inr:
  assumes "train_model lib enc d cfg r w = (Inr r', w')"
  shows "\<exists>m acc. fit_and_score lib enc d (fst cfg) (snd cfg) = Inr (m, acc)
           \<and> r' = dict_set r (fst cfg) acc
           \<and> fitted w' = fitted w @ [fst cfg]
           \<and> files w' = (files w)(fst cfg @ ''.pkl'' \<mapsto> Pickle (artifact enc (fst cfg) m))"
  using assms unfolding train_model_cases
  by (auto split: sum.splits prod.splits option.splits)



lemma pkl_inj: "(n @ ''.pkl'' = n' @ ''.pkl'') = (n = n')"
  by simp


lemma train_loop_Inr_other_files:
  "train_loop lib enc d cfgs r w = (Inr r', w') \<Longrightarrow>
     \<forall>n\<in>set (map fst cfgs). p \<noteq> n @ ''.pkl'' \<Longrightarrow> files w' p = files w p"
proof (induction cfgs arbitrary: r w)
  case Nil
  then show ?case by simp
next
  case (Cons c cs)
  from Cons.prems(1) obtain r1 w1 where step: "train_model lib enc d c r w = (Inr r1, w1)"
    and rest: "train_loop lib enc d cs r1 w1 = (Inr r', w')"
    by (auto split: prod.splits sum.splits)
  from Cons.prems(2) have "files w' p = files w1 p"
    by (intro Cons.IH [OF rest]) simp
  moreover from Cons.prems(2) train_model_Inr [OF step] have "files w1 p = files w p"
    by auto
  ultimately show ?case by simp
qed

lemma train_loop_Inr_artifacts:
  "train_loop lib enc d cfgs r w = (Inr r', w') \<Longrightarrow> distinct (map fst cfgs) \<Longrightarrow>
     cfg \<in> set cfgs \<Longrightarrow>
     \<exists>m acc. fit_and_score lib enc d (fst cfg) (snd cfg) = Inr (m, acc)
        \<and> files w' (fst cfg @ ''.pkl'') = Some (Pickle (artifact enc (fst cfg) m))"
proof (induction cfgs arbitrary: r w)
  case Nil
  then show ?case by simp
next
  case (Cons c cs)
  from Cons.prems(1) obtain r1 w1 where step: "train_model lib enc d c r w = (Inr r1, w1)"
    and rest: "train_loop lib enc d cs r1 w1 = (Inr r', w')"
    by (auto split: prod.splits sum.splits)
  show ?case
  proof (cases "cfg = c")
    case True
    from Cons.prems(2) have "\<forall>n\<in>set (map fst cs). fst c @ ''.pkl'' \<noteq> n @ ''.pkl''"
      by auto
    from train_loop_Inr_other_files [OF rest this]
    have "files w' (fst c @ ''.pkl'') = files w1 (fst c @ ''.pkl'')" .
    with train_model_Inr [OF step] True show ?thesis by auto
  next
    case False
    with Cons.prems have "cfg \<in> set cs" and "distinct (map fst cs)" by auto
    from Cons.IH [OF rest this(2) this(1)] show ?thesis .
  qed
qed


lemma dict_set_new: "k \<notin> fst ` set kvs \<Longrightarrow> dict_set kvs k v = kvs @ [(k, v)]"
  by (induction kvs) auto

lemma train_loop_Inr_results:
  "train_loop lib enc d cfgs r w = (Inr r', w') \<Longrightarrow> distinct (map fst cfgs) \<Longrightarrow>
     fst ` set r \<inter> fst ` set cfgs = {} \<Longrightarrow>
     map fst r' = map fst r @ map fst cfgs \<and> set r \<subseteq> set r'
     \<and> (\<forall>cfg\<in>set cfgs. \<exists>m acc. fit_and_score lib enc d (fst cfg) (snd cfg) = Inr (m, acc)
            \<and> (fst cfg, acc) \<in> set r')"
proof (induction cfgs arbitrary: r w)
  case Nil
  then show ?case by simp
next
  case (Cons c cs)
  from Cons.prems(1) obtain r1 w1 where step: "train_model lib enc d c r w = (Inr r1, w1)"
    and rest: "train_loop lib enc d cs r1 w1 = (Inr r', w')"
    by (auto split: prod.splits sum.splits)
  from train_model_Inr [OF step] obtain m acc where
    fs: "fit_and_score lib enc d (fst c) (snd c) = Inr (m, acc)"
    and r1: "r1 = dict_set r (fst c) acc" by blast
  from Cons.prems(3) have "fst c \<notin> fst ` set r" by auto
  with r1 have r1': "r1 = r @ [(fst c, acc)]" by (simp add: dict_set_new)
  from Cons.prems(2,3) have disj: "fst ` set r1 \<inter> fst ` set cs = {}"
    unfolding r1' by auto
  from Cons.prems(2) have "distinct (map fst cs)" by simp
  from Cons.IH [OF rest this disj]
  have ih: "map fst r' = map fst r1 @ map fst cs" "set r1 \<subseteq> set r'"
    "\<forall>cfg\<in>set cs. \<exists>m acc. fit_and_score lib enc d (fst cfg) (snd cfg) = Inr (m, acc)
        \<and> (fst cfg, acc) \<in> set r'" by blast+
  from ih(2) have "(fst c, acc) \<in> set r'" unfolding r1' by auto
  with fs ih show ?case unfolding r1' by auto
qed

subsection \<open>The best model\<close>

lemma foldl_max_first:
  "\<exists>i<length (x # xs).
      foldl (\<lambda>best v. if key v > key best then v else best) x xs = (x # xs) ! i
      \<and> (\<forall>j<length (x # xs). key ((x # xs) ! j) \<le> (key ((x # xs) ! i) :: rat))
      \<and> (\<forall>j<i. key ((x # xs) ! j) < key ((x # xs) ! i))"
proof (induction xs rule: rev_induct)
  case Nil
  then show ?case by simp
next
  case (snoc y xs)
  let ?f = "\<lambda>best v. if key v > key best then v else best"
  from snoc obtain i where i: "i < length (x # xs)"
    and b: "foldl ?f x xs = (x # xs) ! i"
    and le: "\<forall>j<length (x # xs). key ((x # xs) ! j) \<le> key ((x # xs) ! i)"
    and lt: "\<forall>j<i. key ((x # xs) ! j) < key ((x # xs) ! i)" by blast
  have nth_old: "(x # xs @ [y]) ! j = (x # xs) ! j" if "j < length (x # xs)" for j
    using that by (metis append_Cons nth_append)
  have nth_new: "(x # xs @ [y]) ! length (x # xs) = y"
    by (metis append_Cons nth_append_length)
  show ?case
  proof (cases "key y > key ((x # xs) ! i)")
    case True
    have "foldl ?f x (xs @ [y]) = (x # xs @ [y]) ! length (x # xs)"
      using True b nth_new by simp
    moreover have "\<forall>j<length (x # xs @ [y]). key ((x # xs @ [y]) ! j) \<le> key y"
    proof (intro allI impI)
      fix j assume "j < length (x # xs @ [y])"
      then consider "j < length (x # xs)" | "j = length (x # xs)" by force
      then show "key ((x # xs @ [y]) ! j) \<le> key y"
      proof cases
        case 1
        with le True nth_old [OF 1] show ?thesis by force
      next
        case 2
        with nth_new show ?thesis by simp
      qed
    qed
    moreover have "\<forall>j<length (x # xs). key ((x # xs @ [y]) ! j) < key y"
    proof (intro allI impI)
      fix j assume j: "j < length (x # xs)"
      with le True nth_old [OF j] show "key ((x # xs @ [y]) ! j) < key y" by force
    qed
    ultimately show ?thesis
      using nth_new by (intro exI [of _ "length (x # xs)"]) simp
  next
    case False
    have "foldl ?f x (xs @ [y]) = (x # xs @ [y]) ! i"
      using False b nth_old [OF i] by simp
    moreover have "\<forall>j<length (x # xs @ [y]). key ((x # xs @ [y]) ! j) \<le> key ((x # xs @ [y]) ! i)"
    proof (intro allI impI)
      fix j assume "j < length (x # xs @ [y])"
      then consider "j < length (x # xs)" | "j = length (x # xs)" by force
      then show "key ((x # xs @ [y]) ! j) \<le> key ((x # xs @ [y]) ! i)"
      proof cases
        case 1
        with le nth_old [OF 1] nth_old [OF i] show ?thesis by simp
      next
        case 2
        with nth_new False nth_old [OF i] show ?thesis by simp
      qed
    qed
    moreover have "\<forall>j<i. key ((x # xs @ [y]) ! j) < key ((x # xs @ [y]) ! i)"
    proof (intro allI impI)
      fix j assume j: "j < i"
      with i have "j < length (x # xs)" by simp
      from nth_old [OF this] nth_old [OF i] lt j
      show "key ((x # xs @ [y]) ! j) < key ((x # xs @ [y]) ! i)" by simp
    qed
    ultimately show ?thesis
      using i by (intro exI [of _ i]) simp
  qed
qed

lemma py_max_first:
  assumes "py_max key xs = Inr b"
  shows "\<exists>i<length xs. b = xs ! i \<and> (\<forall>j<length xs. key (xs ! j) \<le> key (xs ! i))
           \<and> (\<forall>j<i. key (xs ! j) < key (xs ! i))"
proof (cases xs)
  case Nil
  with assms show ?thesis by simp
next
  case (Cons x xs')
  with assms have "b = foldl (\<lambda>best v. if key v > key best then v else best) x xs'"
    by simp
  with foldl_max_first [of x xs' key] show ?thesis
    unfolding Cons by metis
qed

subsection \<open>Runs of \<open>train_all\<close>\<close>

lemma distinct_configs: "distinct (map fst configs)"
  by (simp add: configs_def)

lemma names_configs: "map fst configs = [''RandomForest'', ''SVM'', ''NeuralNet'', ''XGBoost'']"
  by (simp add: configs_def)

lemma pkl_not_best: "n @ ''.pkl'' \<noteq> ''BEST.txt''"
proof
  assume "n @ ''.pkl'' = ''BEST.txt''"
  then have "last (n @ ''.pkl'') = last ''BEST.txt''" by simp
  then show False by simp
qed

lemma choose_best_Inr:
  assumes "choose_best lib results w = (Inr r, w')"
  shows "\<exists>best. py_max snd results = Inr best \<and> r = results \<and> fitted w' = fitted w
           \<and> files w' = (files w)(''BEST.txt'' \<mapsto> Text (fst best))"
  using assms unfolding choose_best_def
  by (auto split: sum.splits option.splits)


lemma train_all_Inr:
  assumes "fst (train_all lib df w) = Inr results"
  shows "\<exists>X y enc ye d w1 best.
           prepare df = Inr (X, y, enc, ye) \<and> split_data lib X y ye = Inr d
         \<and> train_loop lib enc d configs [] w = (Inr results, w1)
         \<and> py_max snd results = Inr best
         \<and> fitted (snd (train_all lib df w)) = fitted w1
         \<and> files (snd (train_all lib df w)) = (files w1)(''BEST.txt'' \<mapsto> Text (fst best))"
proof -
  obtain X y enc ye where p: "prepare df = Inr (X, y, enc, ye)"
    using prepare_eq [of df] by blast
  from assms p obtain d where s: "split_data lib X y ye = Inr d"
    by (cases "split_data lib X y ye") (simp_all add: train_all_def)
  obtain res w1 where l: "train_loop lib enc d configs [] w = (res, w1)"
    by (cases "train_loop lib enc d configs [] w")
  from assms p s l obtain r1 where res: "res = Inr r1"
    by (cases res) (simp_all add: train_all_def)
  from p s l res have t: "train_all lib df w = choose_best lib r1 w1"
    by (simp add: train_all_def)
  obtain r2 w2 where c: "choose_best lib r1 w1 = (r2, w2)"
    by (cases "choose_best lib r1 w1")
  with t assms have c': "choose_best lib r1 w1 = (Inr results, w2)" by simp
  from choose_best_Inr [OF c'] obtain best where
    "py_max snd r1 = Inr best" "results = r1" "fitted w2 = fitted w1"
    "files w2 = (files w1)(''BEST.txt'' \<mapsto> Text (fst best))" by blast
  with p s l res t c' show ?thesis by auto
qed


lemma fit_and_score_fit:
  assumes "fit_and_score lib enc d name pipe = Inr (m, acc)"
  shows "fit lib pipe (X_train d)
           (if name = ''XGBoost'' then map (\<lambda>c. PyInt (int c)) (y_train_encoded d)
            else map PyStr (y_train d)) = Inr m"
  using assms unfolding fit_and_score_def
  by (auto split: if_splits sum.splits)

lemma fit_and_score_xgboost:
  assumes "fit_and_score lib enc d ''XGBoost'' pipe = Inr (m, acc)"
  shows "\<exists>y_pred strs.
           fit lib pipe (X_train d) (map (\<lambda>c. PyInt (int c)) (y_train_encoded d)) = Inr m
         \<and> predict lib m (X_test d) = Inr y_pred
         \<and> inverse_transform enc y_pred = Inr strs
         \<and> accuracy_score lib (map PyStr (y_test d)) (map PyStr strs) = Inr acc"
  using assms unfolding fit_and_score_def
  by (auto split: if_splits sum.splits)

lemma decode_Some:
  assumes "decode cs v \<noteq> None"
  shows "\<exists>c<length cs. v = PyInt (int c) \<and> the (decode cs v) = cs ! c"
proof (cases v)
  case (PyStr s)
  with assms show ?thesis by simp
next
  case (PyInt k)
  with assms have k: "0 \<le> k" "k < int (length cs)" by (auto split: if_splits)
  then have "nat k < length cs" "v = PyInt (int (nat k))" "the (decode cs v) = cs ! nat k"
    using PyInt by auto
  then show ?thesis by blast
qed

lemma inverse_transform_Inr:
  assumes "inverse_transform enc y_pred = Inr strs"
  shows "length strs = length y_pred \<and> set strs \<subseteq> set (classes enc)
       \<and> (\<forall>i<length y_pred. \<exists>c<length (classes enc).
              y_pred ! i = PyInt (int c) \<and> strs ! i = classes enc ! c)"
proof -
  from assms have ok: "\<forall>v\<in>set y_pred. decode (classes enc) v \<noteq> None"
    and strs: "strs = map (\<lambda>v. the (decode (classes enc) v)) y_pred"
    unfolding inverse_transform_def by (auto simp: list_all_iff split: if_splits)
  have each: "\<exists>c<length (classes enc). y_pred ! i = PyInt (int c) \<and> strs ! i = classes enc ! c"
    if "i < length y_pred" for i
    using decode_Some [of "classes enc" "y_pred ! i"] ok that unfolding strs by simp
  have "set strs \<subseteq> set (classes enc)"
  proof
    fix s assume "s \<in> set strs"
    then obtain i where i: "i < length y_pred" and s: "s = strs ! i"
      unfolding strs by (auto simp: in_set_conv_nth)
    from each [OF i] s show "s \<in> set (classes enc)" by auto
  qed
  with each strs show ?thesis by simp
qed

text \<open>
  C7. After a run that returned, each of the four names has its file
  \<open>name.pkl\<close>, holding the pipeline that \<open>fit\<close> returned for that name on the training
  split, the list of the four feature names, and, for XGBoost alone, the label encoder
  (the sorted distinct labels of the frame).
\<close>

theorem artifacts_after_success:
  assumes "fst (train_all lib df w) = Inr results"
  shows "\<exists>X y enc ye d.
           prepare df = Inr (X, y, enc, ye) \<and> split_data lib X y ye = Inr d
         \<and> (\<forall>cfg\<in>set configs. \<exists>m.
               fit lib (snd cfg) (X_train d)
                 (if fst cfg = ''XGBoost'' then map (\<lambda>c. PyInt (int c)) (y_train_encoded d)
                  else map PyStr (y_train d)) = Inr m
             \<and> files (snd (train_all lib df w)) (fst cfg @ ''.pkl'') =
                 Some (Pickle \<lparr>model = m,
                   features = [''orbital_period'', ''transit_duration'', ''planet_radius'',
                               ''stellar_temp''],
                   label_encoder = (if fst cfg = ''XGBoost''
                                    then Some \<lparr>classes = unique (label df)\<rparr> else None)\<rparr>))
         \<and> map fst configs = [''RandomForest'', ''SVM'', ''NeuralNet'', ''XGBoost'']"
proof -
  from train_all_Inr [OF assms] obtain X y enc ye d w1 best where
    p: "prepare df = Inr (X, y, enc, ye)" and s: "split_data lib X y ye = Inr d"
    and l: "train_loop lib enc d configs [] w = (Inr results, w1)"
    and f: "files (snd (train_all lib df w)) = (files w1)(''BEST.txt'' \<mapsto> Text (fst best))"
    by auto
  from p have enc: "enc = \<lparr>classes = unique (label df)\<rparr>"
    by (auto simp: prepare_eq)
  have "\<exists>m. fit lib (snd cfg) (X_train d)
               (if fst cfg = ''XGBoost'' then map (\<lambda>c. PyInt (int c)) (y_train_encoded d)
                else map PyStr (y_train d)) = Inr m
           \<and> files (snd (train_all lib df w)) (fst cfg @ ''.pkl'') =
               Some (Pickle \<lparr>model = m,
                 features = [''orbital_period'', ''transit_duration'', ''planet_radius'',
                             ''stellar_temp''],
                 label_encoder = (if fst cfg = ''XGBoost''
                                  then Some \<lparr>classes = unique (label df)\<rparr> else None)\<rparr>)"
    if cfg: "cfg \<in> set configs" for cfg
  proof -
    from train_loop_Inr_artifacts [OF l distinct_configs cfg] obtain m acc where
      fs: "fit_and_score lib enc d (fst cfg) (snd cfg) = Inr (m, acc)"
      and a: "files w1 (fst cfg @ ''.pkl'') = Some (Pickle (artifact enc (fst cfg) m))"
      by blast
    from f a have "files (snd (train_all lib df w)) (fst cfg @ ''.pkl'')
        = Some (Pickle (artifact enc (fst cfg) m))"
      by (simp add: pkl_not_best)
    with fit_and_score_fit [OF fs] show ?thesis
      unfolding artifact_def FEATURES_def enc by blast
  qed
  then have each: "\<forall>cfg\<in>set configs. \<exists>m.
      fit lib (snd cfg) (X_train d)
        (if fst cfg = ''XGBoost'' then map (\<lambda>c. PyInt (int c)) (y_train_encoded d)
         else map PyStr (y_train d)) = Inr m
      \<and> files (snd (train_all lib df w)) (fst cfg @ ''.pkl'') =
          Some (Pickle \<lparr>model = m,
            features = [''orbital_period'', ''transit_duration'', ''planet_radius'',
                        ''stellar_temp''],
            label_encoder = (if fst cfg = ''XGBoost''
                             then Some \<lparr>classes = unique (label df)\<rparr> else None)\<rparr>)"
    by blast
  from p s each names_configs show ?thesis
    by (intro exI conjI) assumption+
qed

theorem artifacts_witness:
  "fst (train_all stub_library six_rows empty_dir) =
     Inr [(''RandomForest'', 0), (''SVM'', 1), (''NeuralNet'', 0), (''XGBoost'', 0)]
   \<and> (\<exists>m. files (snd (train_all stub_library six_rows empty_dir)) ''XGBoost.pkl'' =
         Some (Pickle \<lparr>model = m,
           features = [''orbital_period'', ''transit_duration'', ''planet_radius'',
                       ''stellar_temp''],
           label_encoder = Some \<lparr>classes = [''CANDIDATE'', ''CONFIRMED'', ''FALSE POSITIVE'']\<rparr>\<rparr>))
   \<and> (\<exists>m. files (snd (train_all stub_library six_rows empty_dir)) ''SVM.pkl'' =
         Some (Pickle \<lparr>model = m,
           features = [''orbital_period'', ''transit_duration'', ''planet_radius'',
                       ''stellar_temp''],
           label_encoder = None\<rparr>))"
proof -
  let ?w = "snd (train_all stub_library six_rows empty_dir)"
  have h: "fst (train_all stub_library six_rows empty_dir) =
     Inr [(''RandomForest'', 0), (''SVM'', 1), (''NeuralNet'', 0), (''XGBoost'', 0)]"
    by code_simp
  have u: "unique (label six_rows) = [''CANDIDATE'', ''CONFIRMED'', ''FALSE POSITIVE'']"
    by code_simp
  have x: "configs ! 3 \<in> set configs" "fst (configs ! 3) = ''XGBoost''"
    and v: "configs ! 1 \<in> set configs" "fst (configs ! 1) = ''SVM''"
    by (simp_all add: configs_def)
  from artifacts_after_success [OF h] obtain X y enc ye d where
    "prepare six_rows = Inr (X, y, enc, ye)" "split_data stub_library X y ye = Inr d"
    and each: "\<forall>cfg\<in>set configs. \<exists>m.
       fit stub_library (snd cfg) (X_train d)
         (if fst cfg = ''XGBoost'' then map (\<lambda>c. PyInt (int c)) (y_train_encoded d)
          else map PyStr (y_train d)) = Inr m
       \<and> files ?w (fst cfg @ ''.pkl'') =
           Some (Pickle \<lparr>model = m,
             features = [''orbital_period'', ''transit_duration'', ''planet_radius'',
                         ''stellar_temp''],
             label_encoder = (if fst cfg = ''XGBoost''
                              then Some \<lparr>classes = unique (label six_rows)\<rparr> else None)\<rparr>)"
    and "map fst configs = [''RandomForest'', ''SVM'', ''NeuralNet'', ''XGBoost'']"
    by (elim exE conjE) (rule that)
  from each x(1) obtain m where
    "files ?w (fst (configs ! 3) @ ''.pkl'') =
       Some (Pickle \<lparr>model = m,
         features = [''orbital_period'', ''transit_duration'', ''planet_radius'',
                     ''stellar_temp''],
         label_encoder = (if fst (configs ! 3) = ''XGBoost''
                          then Some \<lparr>classes = unique (label six_rows)\<rparr> else None)\<rparr>)"
    by blast
  then have a: "\<exists>m. files ?w ''XGBoost.pkl'' =
       Some (Pickle \<lparr>model = m,
         features = [''orbital_period'', ''transit_duration'', ''planet_radius'',
                     ''stellar_temp''],
         label_encoder = Some \<lparr>classes = [''CANDIDATE'', ''CONFIRMED'', ''FALSE POSITIVE'']\<rparr>\<rparr>)"
    unfolding x(2) u by auto
  from each v(1) obtain m' where
    "files ?w (fst (configs ! 1) @ ''.pkl'') =
       Some (Pickle \<lparr>model = m',
         features = [''orbital_period'', ''transit_duration'', ''planet_radius'',
                     ''stellar_temp''],
         label_encoder = (if fst (configs ! 1) = ''XGBoost''
                          then Some \<lparr>classes = unique (label six_rows)\<rparr> else None)\<rparr>)"
    by blast
  then have b: "\<exists>m. files ?w ''SVM.pkl'' =
       Some (Pickle \<lparr>model = m,
         features = [''orbital_period'', ''transit_duration'', ''planet_radius'',
                     ''stellar_temp''],
         label_encoder = None\<rparr>)"
    unfolding v(2) by auto
  from h a b show ?thesis by blast
qed

text \<open>
  C4. After a run that returned, the results list the four names in the order of
  \<open>configs\<close>, and \<open>BEST.txt\<close> holds the name of an entry whose recorded accuracy no
  entry exceeds and every earlier entry is strictly below: the first maximum.
\<close>

theorem best_marker_first_maximum:
  assumes "fst (train_all lib df w) = Inr results"
  shows "map fst results = [''RandomForest'', ''SVM'', ''NeuralNet'', ''XGBoost'']
       \<and> (\<exists>i<length results.
             files (snd (train_all lib df w)) ''BEST.txt'' = Some (Text (fst (results ! i)))
           \<and> (\<forall>j<length results. snd (results ! j) \<le> snd (results ! i))
           \<and> (\<forall>j<i. snd (results ! j) < snd (results ! i)))"
proof -
  from train_all_Inr [OF assms] obtain X y enc ye d w1 best where
    l: "train_loop lib enc d configs [] w = (Inr results, w1)"
    and b: "py_max snd results = Inr best"
    and f: "files (snd (train_all lib df w)) = (files w1)(''BEST.txt'' \<mapsto> Text (fst best))"
    by auto
  from train_loop_Inr_results [OF l distinct_configs]
  have "map fst results = map fst configs" by simp
  moreover from py_max_first [OF b] obtain i where "i < length results" "best = results ! i"
    "\<forall>j<length results. snd (results ! j) \<le> snd (results ! i)"
    "\<forall>j<i. snd (results ! j) < snd (results ! i)" by blast
  ultimately show ?thesis using f names_configs by auto
qed

theorem best_marker_witness:
  "fst (train_all stub_library six_rows empty_dir) =
     Inr [(''RandomForest'', 0), (''SVM'', 1), (''NeuralNet'', 0), (''XGBoost'', 0)]
   \<and> files (snd (train_all stub_library six_rows empty_dir)) ''BEST.txt'' = Some (Text ''SVM'')
   \<and> fst (train_all stub_library tied_rows empty_dir) =
     Inr [(''RandomForest'', 1 / 2), (''SVM'', 1 / 2), (''NeuralNet'', 1 / 2),
          (''XGBoost'', 1 / 2)]
   \<and> files (snd (train_all stub_library tied_rows empty_dir)) ''BEST.txt'' =
       Some (Text ''RandomForest'')"
proof -
  let ?r = "[(''RandomForest'', 0), (''SVM'', 1), (''NeuralNet'', 0), (''XGBoost'', 0::rat)]"
  let ?t = "[(''RandomForest'', 1 / 2), (''SVM'', 1 / 2), (''NeuralNet'', 1 / 2),
             (''XGBoost'', 1 / 2 :: rat)]"
  have h: "fst (train_all stub_library six_rows empty_dir) = Inr ?r"
    by code_simp
  have k: "fst (train_all stub_library tied_rows empty_dir) = Inr ?t"
    by code_simp
  from best_marker_first_maximum [OF h] obtain i where i: "i < length ?r"
    and f: "files (snd (train_all stub_library six_rows empty_dir)) ''BEST.txt''
              = Some (Text (fst (?r ! i)))"
    and le: "\<forall>j<length ?r. snd (?r ! j) \<le> snd (?r ! i)" by blast
  from i have "i = 0 \<or> i = 1 \<or> i = 2 \<or> i = 3" by auto
  moreover from le [rule_format, of 1] have "snd (?r ! 1) \<le> snd (?r ! i)" by simp
  ultimately have "i = 1" by auto
  with f have a: "files (snd (train_all stub_library six_rows empty_dir)) ''BEST.txt''
      = Some (Text ''SVM'')" by simp
  from best_marker_first_maximum [OF k] obtain n where n: "n < length ?t"
    and g: "files (snd (train_all stub_library tied_rows empty_dir)) ''BEST.txt''
              = Some (Text (fst (?t ! n)))"
    and lt: "\<forall>j<n. snd (?t ! j) < snd (?t ! n)" by blast
  from n have "n = 0 \<or> n = 1 \<or> n = 2 \<or> n = 3" by auto
  moreover from lt [rule_format, of 0] have "0 < n \<longrightarrow> snd (?t ! 0) < snd (?t ! n)" by simp
  ultimately have "n = 0" by auto
  with g have b: "files (snd (train_all stub_library tied_rows empty_dir)) ''BEST.txt''
      = Some (Text ''RandomForest'')" by simp
  from h k a b show ?thesis by simp
qed

text \<open>
  C5. In a run that returned, the XGBoost pipeline was fitted on the integer codes of the
  training labels, its predictions on the test rows were decoded by the label encoder
  before \<open>accuracy_score\<close> compared them with the test labels, and the accuracy recorded
  for XGBoost is that score. Every decoded prediction is the class at the predicted code,
  hence a label of the frame.
\<close>

theorem xgboost_predictions_decoded:
  assumes "fst (train_all lib df w) = Inr results"
  shows "\<exists>X y enc ye d pipe m y_pred strs acc.
           prepare df = Inr (X, y, enc, ye) \<and> split_data lib X y ye = Inr d
         \<and> map_of configs ''XGBoost'' = Some pipe
         \<and> fit lib pipe (X_train d) (map (\<lambda>c. PyInt (int c)) (y_train_encoded d)) = Inr m
         \<and> predict lib m (X_test d) = Inr y_pred
         \<and> inverse_transform enc y_pred = Inr strs
         \<and> accuracy_score lib (map PyStr (y_test d)) (map PyStr strs) = Inr acc
         \<and> (''XGBoost'', acc) \<in> set results
         \<and> length strs = length y_pred \<and> set strs \<subseteq> set (label df)
         \<and> (\<forall>i<length y_pred. \<exists>c<length (classes enc).
                y_pred ! i = PyInt (int c) \<and> strs ! i = classes enc ! c)"
proof -
  from train_all_Inr [OF assms] obtain X y enc ye d w1 best where
    p: "prepare df = Inr (X, y, enc, ye)" and s: "split_data lib X y ye = Inr d"
    and l: "train_loop lib enc d configs [] w = (Inr results, w1)"
    by auto
  from p have enc: "classes enc = unique (label df)"
    by (auto simp: prepare_eq)
  obtain pipe where pipe: "map_of configs ''XGBoost'' = Some pipe"
    and mem: "(''XGBoost'', pipe) \<in> set configs"
    by (simp add: configs_def)
  from train_loop_Inr_results [OF l distinct_configs] mem obtain m acc where
    fs: "fit_and_score lib enc d ''XGBoost'' pipe = Inr (m, acc)"
    and r: "(''XGBoost'', acc) \<in> set results" by fastforce
  from fit_and_score_xgboost [OF fs] obtain y_pred strs where
    x: "fit lib pipe (X_train d) (map (\<lambda>c. PyInt (int c)) (y_train_encoded d)) = Inr m"
      "predict lib m (X_test d) = Inr y_pred"
      "inverse_transform enc y_pred = Inr strs"
      "accuracy_score lib (map PyStr (y_test d)) (map PyStr strs) = Inr acc" by blast
  from inverse_transform_Inr [OF x(3)] enc
  have "length strs = length y_pred" "set strs \<subseteq> set (label df)"
    "\<forall>i<length y_pred. \<exists>c<length (classes enc).
        y_pred ! i = PyInt (int c) \<and> strs ! i = classes enc ! c"
    by (simp_all add: set_unique)
  with p s pipe x r show ?thesis by blast
qed

theorem xgboost_decoded_witness:
  "fst (train_all stub_library six_rows empty_dir) =
     Inr [(''RandomForest'', 0), (''SVM'', 1), (''NeuralNet'', 0), (''XGBoost'', 0)]
   \<and> (\<exists>y_pred strs.
         inverse_transform \<lparr>classes = [''CANDIDATE'', ''CONFIRMED'', ''FALSE POSITIVE'']\<rparr> y_pred
           = Inr strs
       \<and> length strs = length y_pred
       \<and> set strs \<subseteq> {''CANDIDATE'', ''CONFIRMED'', ''FALSE POSITIVE''})"
proof -
  have h: "fst (train_all stub_library six_rows empty_dir) =
     Inr [(''RandomForest'', 0), (''SVM'', 1), (''NeuralNet'', 0), (''XGBoost'', 0)]"
    by code_simp
  have l: "set (label six_rows) = {''CANDIDATE'', ''CONFIRMED'', ''FALSE POSITIVE''}"
    by (auto simp: six_rows_def)
  have u: "unique (label six_rows) = [''CANDIDATE'', ''CONFIRMED'', ''FALSE POSITIVE'']"
    by code_simp
  from xgboost_predictions_decoded [OF h] obtain X y enc ye y_pred strs where
    p: "prepare six_rows = Inr (X, y, enc, ye)"
    and i: "inverse_transform enc y_pred = Inr strs"
    and n: "length strs = length y_pred" and s: "set strs \<subseteq> set (label six_rows)"
    by (elim exE conjE) (rule that)
  from p have "enc = \<lparr>classes = [''CANDIDATE'', ''CONFIRMED'', ''FALSE POSITIVE'']\<rparr>"
    by (auto simp: prepare_eq u)
  with i n s l h show ?thesis by blast
qed

subsection \<open>Runs that raise\<close>





end
